theory Spec2Isabelle
  imports Complex_Main "HOL-Library.AList"
begin

section \<open>Python values used by the service\<close>

text \<open>
  The service is a FastAPI application (\<^verbatim>\<open>app.py\<close>) over two helper
  modules (\<^verbatim>\<open>audio_utils.py\<close>, \<^verbatim>\<open>model_service.py\<close>) and a
  configuration module (\<^verbatim>\<open>config.py\<close>). Exceptions are values of type
  \<open>exn\<close>; a function that may raise returns \<open>exn + 'a\<close> with \<open>Inl\<close> the
  exception. \<open>OtherError\<close> stands for every exception class that is neither
  \<^verbatim>\<open>ValueError\<close>, \<^verbatim>\<open>RuntimeError\<close> nor \<^verbatim>\<open>HTTPException\<close>
  (\<^verbatim>\<open>OSError\<close>, \<^verbatim>\<open>IndexError\<close>, a library's own error, ...), with
  its message.
\<close>

datatype exn =
    ValueError string
  | RuntimeError string
  | OtherError string
  | HTTPException nat string

subsection \<open>Strings\<close>

fun show_nat :: "nat \<Rightarrow> string" where
  "show_nat n =
     (if n < 10 then [''0123456789'' ! n]
      else show_nat (n div 10) @ [''0123456789'' ! (n mod 10)])"

declare show_nat.simps [simp del]

text \<open>\<^verbatim>\<open>str(e)\<close> of an exception built from one message.\<close>

fun str_exn :: "exn \<Rightarrow> string" where
  "str_exn (ValueError m) = m"
| "str_exn (RuntimeError m) = m"
| "str_exn (OtherError m) = m"
| "str_exn (HTTPException s d) = show_nat s @ '': '' @ d"

definition lower_char :: "char \<Rightarrow> char" where
  "lower_char c =
     (case map_of (zip ''ABCDEFGHIJKLMNOPQRSTUVWXYZ'' ''abcdefghijklmnopqrstuvwxyz'') c of
        Some d \<Rightarrow> d
      | None \<Rightarrow> c)"

definition lower :: "string \<Rightarrow> string" where
  "lower s = map lower_char s"

fun join_str :: "string \<Rightarrow> string list \<Rightarrow> string" where
  "join_str sep [] = []"
| "join_str sep [x] = x"
| "join_str sep (x # y # ys) = x @ sep @ join_str sep (y # ys)"

fun split_on :: "char \<Rightarrow> string \<Rightarrow> string list" where
  "split_on c [] = [[]]"
| "split_on c (x # xs) =
     (if x = c then [] # split_on c xs
      else (case split_on c xs of
              [] \<Rightarrow> [[x]]
            | w # ws \<Rightarrow> (x # w) # ws))"

text \<open>\<^verbatim>\<open>s.rfind(c)\<close>: the index of the last occurrence, \<open>None\<close> for Python's -1.\<close>

definition rfind :: "char \<Rightarrow> string \<Rightarrow> nat option" where
  "rfind c s =
     (let r = dropWhile (\<lambda>x. x \<noteq> c) (rev s)
      in if r = [] then None else Some (length r - 1))"

text \<open>\<^verbatim>\<open>s.rsplit('.', 1)[0]\<close>.\<close>

definition rsplit_dot_head :: "string \<Rightarrow> string" where
  "rsplit_dot_head s = (case rfind (CHR ''.'') s of None \<Rightarrow> s | Some i \<Rightarrow> take i s)"

subsection \<open>Paths\<close>

type_synonym path = string

text \<open>\<^verbatim>\<open>os.path.join\<close> of two components (POSIX).\<close>

definition os_path_join :: "path \<Rightarrow> string \<Rightarrow> path" where
  "os_path_join a b =
     (if b \<noteq> [] \<and> hd b = CHR ''/'' then b
      else if a = [] \<or> last a = CHR ''/'' then a @ b
      else a @ ''/'' @ b)"

text \<open>
  \<^verbatim>\<open>Path(p).name\<close> and \<^verbatim>\<open>Path(p).suffix\<close> of \<^verbatim>\<open>pathlib\<close> (POSIX
  flavour): the name is the last component that is neither empty nor a single dot; the
  suffix starts at the last dot of the name, when that dot is neither its first nor its
  last character.
\<close>

definition path_name :: "path \<Rightarrow> string" where
  "path_name p =
     (case filter (\<lambda>x. x \<noteq> [] \<and> x \<noteq> ''.'') (split_on (CHR ''/'') p) of
        [] \<Rightarrow> []
      | x # xs \<Rightarrow> last (x # xs))"

definition path_suffix :: "path \<Rightarrow> string" where
  "path_suffix p =
     (let name = path_name p
      in case rfind (CHR ''.'') name of
           None \<Rightarrow> []
         | Some i \<Rightarrow> if 0 < i \<and> i < length name - 1 then drop i name else [])"

section \<open>config.py\<close>

definition MODEL_NAME :: string where
  "MODEL_NAME = ''nvidia/parakeet-tdt-0.6b-v3''"

definition SAMPLE_RATE :: nat where
  "SAMPLE_RATE = 16000"

definition MAX_AUDIO_DURATION :: nat where
  "MAX_AUDIO_DURATION = 24 * 60"

definition ALLOWED_FORMATS :: "string list" where
  "ALLOWED_FORMATS = [''.wav'', ''.webm'', ''.mp3'', ''.flac'', ''.m4a'', ''.ogg'']"

section \<open>The world outside the program\<close>

text \<open>
  A waveform as the program sees it: the shape of the \<^verbatim>\<open>numpy\<close> array that
  \<^verbatim>\<open>librosa.load\<close> returns, \<open>Flat n\<close> for shape \<open>(n,)\<close> and \<open>Multi c n\<close> for
  shape \<open>(c, n)\<close>.
\<close>

datatype ndarray = Flat nat | Multi nat nat

fun ndim :: "ndarray \<Rightarrow> nat" where
  "ndim (Flat n) = 1"
| "ndim (Multi c n) = 2"

fun shape0 :: "ndarray \<Rightarrow> nat" where
  "shape0 (Flat n) = n"
| "shape0 (Multi c n) = c"

fun n_samples :: "ndarray \<Rightarrow> nat" where
  "n_samples (Flat n) = n"
| "n_samples (Multi c n) = n"

text \<open>
  A file holds either the bytes of an upload or a sound file written by
  \<^verbatim>\<open>soundfile.write\<close> (its decoded shape and its sample rate).
\<close>

datatype file_content = Bytes "nat list" | Sound ndarray nat

datatype node = File file_content | Dir

type_synonym filesystem = "(path \<times> node) list"

record nemo_model =
  pretrained_name :: string
  on_gpu :: bool

datatype asr_output = StrOut string | Hypothesis string "string option"

text \<open>
  What the program cannot decide: the directory the program is installed in, the codecs,
  the refusals of the operating system (a message for each path an operation fails on),
  the download of the model (its outcome may differ from one construction to the next),
  the model's answers and the GPU. The program holds a duration as a float;
  \<open>format_float k x\<close> is the text that the format specification
  \<^verbatim>\<open>.kf\<close> of an f-string prints for the float that stands for \<open>x\<close>. The
  rounding of that float and of its decimals is Python's and is not fixed here.
\<close>

record env =
  base_dir :: path
  decode_bytes :: "nat list \<Rightarrow> string + (ndarray \<times> nat)"
  open_error :: "path \<Rightarrow> string option"
  sf_write_error :: "path \<Rightarrow> string option"
  partial_write :: "path \<Rightarrow> bool"
  remove_error :: "path \<Rightarrow> string option"
  listdir_error :: "path \<Rightarrow> string option"
  from_pretrained :: "nat \<Rightarrow> string \<Rightarrow> string option"
  to_cuda_error :: "string option"
  nemo_transcribe :: "nemo_model \<Rightarrow> node option list \<Rightarrow> string + asr_output list"
  cuda_available :: bool
  cuda_device_name :: string
  format_float :: "nat \<Rightarrow> real \<Rightarrow> string"

definition UPLOAD_DIR :: "env \<Rightarrow> path" where
  "UPLOAD_DIR e = os_path_join (base_dir e) ''uploads''"

definition TEMP_DIR :: "env \<Rightarrow> path" where
  "TEMP_DIR e = os_path_join (UPLOAD_DIR e) ''temp''"

subsection \<open>The file system\<close>

definition os_path_exists :: "filesystem \<Rightarrow> path \<Rightarrow> bool" where
  "os_path_exists fsys p = (map_of fsys p \<noteq> None)"

definition os_path_isfile :: "filesystem \<Rightarrow> path \<Rightarrow> bool" where
  "os_path_isfile fsys p =
     (case map_of fsys p of Some (File c) \<Rightarrow> True | Some Dir \<Rightarrow> False | None \<Rightarrow> False)"

definition os_remove :: "env \<Rightarrow> filesystem \<Rightarrow> path \<Rightarrow> exn + filesystem" where
  "os_remove e fsys p =
     (case remove_error e p of
        Some m \<Rightarrow> Inl (OtherError m)
      | None \<Rightarrow>
         (case map_of fsys p of
            None \<Rightarrow> Inl (OtherError ''No such file or directory'')
          | Some Dir \<Rightarrow> Inl (OtherError ''Is a directory'')
          | Some (File c) \<Rightarrow> Inr (AList.delete p fsys)))"

text \<open>
  Opening a path for writing and writing \<open>c\<close> to it. \<open>err\<close> is the refusal of the
  operation used (\<open>open_error\<close> or \<open>sf_write_error\<close>); a refused write may leave an
  empty file behind.
\<close>

definition write_node ::
  "env \<Rightarrow> (path \<Rightarrow> string option) \<Rightarrow> filesystem \<Rightarrow> path \<Rightarrow> file_content \<Rightarrow> string option \<times> filesystem"
where
  "write_node e err fsys p c =
     (case map_of fsys p of
        Some Dir \<Rightarrow> (Some ''Is a directory'', fsys)
      | _ \<Rightarrow>
         (case err p of
            Some m \<Rightarrow>
              (Some m, if partial_write e p then AList.update p (File (Bytes [])) fsys else fsys)
          | None \<Rightarrow> (None, AList.update p (File c) fsys)))"

text \<open>
  \<^verbatim>\<open>os.listdir(d)\<close>: the names of the entries directly under \<open>d\<close> (a path that
  does not end with a slash, as \<open>TEMP_DIR\<close> is).
\<close>

definition is_child :: "path \<Rightarrow> path \<Rightarrow> bool" where
  "is_child d p =
     (length d + 1 < length p \<and> take (length d) p = d \<and> p ! length d = CHR ''/''
      \<and> CHR ''/'' \<notin> set (drop (length d + 1) p))"

definition os_listdir :: "env \<Rightarrow> filesystem \<Rightarrow> path \<Rightarrow> exn + string list" where
  "os_listdir e fsys d =
     (case listdir_error e d of
        Some m \<Rightarrow> Inl (OtherError m)
      | None \<Rightarrow> Inr (map (drop (length d + 1)) (filter (is_child d) (map fst fsys))))"

subsection \<open>librosa and soundfile\<close>

text \<open>
  The two libraries by their documented behaviour. \<^verbatim>\<open>librosa.load(path, sr, mono)\<close>
  decodes the file, mixes it down to one channel when \<open>mono\<close>, and resamples it to
  \<open>sr\<close> unless \<open>sr\<close> is \<^verbatim>\<open>None\<close>; it returns the samples and their rate.
  \<^verbatim>\<open>librosa.resample\<close> returns its input when the two rates agree, and refuses a
  result of fewer than one sample. \<^verbatim>\<open>librosa.get_duration(y, sr)\<close> is the number
  of samples over the rate. \<open>Inl\<close> is the message of the exception raised.
\<close>

fun to_mono :: "ndarray \<Rightarrow> ndarray" where
  "to_mono (Flat n) = Flat n"
| "to_mono (Multi c n) = Flat n"

fun with_samples :: "ndarray \<Rightarrow> nat \<Rightarrow> ndarray" where
  "with_samples (Flat n) m = Flat m"
| "with_samples (Multi c n) m = Multi c m"

definition librosa_resample :: "ndarray \<Rightarrow> nat \<Rightarrow> nat \<Rightarrow> string + ndarray" where
  "librosa_resample y orig_sr target_sr =
     (if orig_sr = target_sr then Inr y
      else if orig_sr = 0 then Inl ''float division by zero''
      else (let n = (n_samples y * target_sr + orig_sr - 1) div orig_sr
            in if n < 1 then Inl ''Input signal length is too small to resample''
               else Inr (with_samples y n)))"

fun decode :: "env \<Rightarrow> file_content \<Rightarrow> string + (ndarray \<times> nat)" where
  "decode e (Bytes b) = decode_bytes e b"
| "decode e (Sound y r) = Inr (y, r)"

definition librosa_load ::
  "env \<Rightarrow> filesystem \<Rightarrow> path \<Rightarrow> nat option \<Rightarrow> bool \<Rightarrow> string + (ndarray \<times> nat)"
where
  "librosa_load e fsys p sr mono_flag =
     (case map_of fsys p of
        None \<Rightarrow> Inl ''No such file or directory''
      | Some Dir \<Rightarrow> Inl ''Is a directory''
      | Some (File c) \<Rightarrow>
         (case decode e c of
            Inl m \<Rightarrow> Inl m
          | Inr (y, sr_native) \<Rightarrow>
             (let y1 = (if mono_flag then to_mono y else y)
              in case sr of
                   None \<Rightarrow> Inr (y1, sr_native)
                 | Some r \<Rightarrow>
                    (case librosa_resample y1 sr_native r of
                       Inl m \<Rightarrow> Inl m
                     | Inr y2 \<Rightarrow> Inr (y2, r)))))"

definition librosa_get_duration :: "ndarray \<Rightarrow> nat \<Rightarrow> string + real" where
  "librosa_get_duration y sr =
     (if sr = 0 then Inl ''float division by zero''
      else Inr (real (n_samples y) / real sr))"

text \<open>
  \<^verbatim>\<open>soundfile.write(path, data, samplerate)\<close>: one-dimensional data is one
  channel; two-dimensional data is frames by channels, so it reads back transposed.
\<close>

fun sf_layout :: "ndarray \<Rightarrow> ndarray" where
  "sf_layout (Flat n) = Flat n"
| "sf_layout (Multi c n) = Multi n c"

definition sf_write ::
  "env \<Rightarrow> filesystem \<Rightarrow> path \<Rightarrow> ndarray \<Rightarrow> nat \<Rightarrow> string option \<times> filesystem"
where
  "sf_write e fsys p y r = write_node e (sf_write_error e) fsys p (Sound (sf_layout y) r)"

section \<open>audio\_utils.py\<close>

definition convert_to_wav ::
  "env \<Rightarrow> filesystem \<Rightarrow> path \<Rightarrow> path option \<Rightarrow> (exn + path) \<times> filesystem"
where
  "convert_to_wav e fsys input_path output_path =
     (case librosa_load e fsys input_path (Some SAMPLE_RATE) True of
        Inl m \<Rightarrow> (Inl (ValueError (''Failed to convert audio file: '' @ m)), fsys)
      | Inr (audio, sr) \<Rightarrow>
         (let out = (case output_path of
                       None \<Rightarrow> rsplit_dot_head input_path @ ''_converted.wav''
                     | Some p \<Rightarrow> p)
          in case sf_write e fsys out audio SAMPLE_RATE of
               (Some m, fsys') \<Rightarrow>
                 (Inl (ValueError (''Failed to convert audio file: '' @ m)), fsys')
             | (None, fsys') \<Rightarrow> (Inr out, fsys')))"

record audio_info =
  duration :: real
  sample_rate :: nat
  channels :: nat
  valid :: bool

definition validate_audio :: "env \<Rightarrow> filesystem \<Rightarrow> path \<Rightarrow> exn + audio_info" where
  "validate_audio e fsys file_path =
     (case librosa_load e fsys file_path None False of
        Inl m \<Rightarrow> Inl (ValueError (''Audio validation failed: '' @ m))
      | Inr (audio, sr) \<Rightarrow>
         (case librosa_get_duration audio sr of
            Inl m \<Rightarrow> Inl (ValueError (''Audio validation failed: '' @ m))
          | Inr d \<Rightarrow>
             if real MAX_AUDIO_DURATION < d
             then Inl (ValueError (''Audio validation failed: ''
                    @ ''Audio duration ('' @ format_float e 1 d @ ''s) exceeds maximum allowed ''
                    @ ''duration ('' @ show_nat MAX_AUDIO_DURATION @ ''s)''))
             else Inr \<lparr> duration = d, sample_rate = sr,
                        channels = (if ndim audio = 1 then 1 else shape0 audio),
                        valid = True \<rparr>))"

definition get_audio_info :: "env \<Rightarrow> filesystem \<Rightarrow> path \<Rightarrow> exn + string" where
  "get_audio_info e fsys file_path =
     (case validate_audio e fsys file_path of
        Inl x \<Rightarrow> Inl x
      | Inr info \<Rightarrow>
          Inr (''Duration: '' @ format_float e 2 (duration info) @ ''s, ''
               @ ''Sample Rate: '' @ show_nat (sample_rate info) @ ''Hz, ''
               @ ''Channels: '' @ show_nat (channels info)))"

section \<open>model\_service.py\<close>

text \<open>
  The state of the process: the file system, the log (both loggers write to it), the
  module global \<^verbatim>\<open>model_service\<close> of \<^verbatim>\<open>app.py\<close>, the module global
  \<^verbatim>\<open>_model_service_instance\<close> of \<^verbatim>\<open>model_service.py\<close>, and the number of
  \<^verbatim>\<open>ModelService\<close> objects constructed so far, which gives each object its
  identity.
\<close>

datatype level = INFO | WARNING | ERROR

record ModelService =
  obj_id :: nat
  model :: "nemo_model option"
  model_name :: string

record state =
  fs :: filesystem
  logs :: "(level \<times> string) list"
  model_service :: "ModelService option"
  model_service_instance :: "ModelService option"
  constructed :: nat

definition logger :: "level \<Rightarrow> string \<Rightarrow> state \<Rightarrow> state" where
  "logger l m s = s\<lparr>logs := logs s @ [(l, m)]\<rparr>"

text \<open>\<^verbatim>\<open>ModelService._load_model\<close>.\<close>

definition load_model :: "env \<Rightarrow> ModelService \<Rightarrow> state \<Rightarrow> (exn + ModelService) \<times> state" where
  "load_model e self s0 =
     (let s1 = logger INFO (''Loading NVIDIA Parakeet model: '' @ model_name self) s0;
          s2 = logger INFO ''This may take a few minutes on first run (downloading model)...'' s1
      in case from_pretrained e (obj_id self) (model_name self) of
           Some m \<Rightarrow>
             (Inl (RuntimeError (''Model initialization failed: '' @ m)),
              logger ERROR (''Failed to load model: '' @ m) s2)
         | None \<Rightarrow>
            (let loaded = \<lparr>pretrained_name = model_name self, on_gpu = False\<rparr>;
                 s3 = logger INFO ''Model loaded successfully!'' s2
             in if cuda_available e
                then (let s4 = logger INFO (''Using GPU: '' @ cuda_device_name e) s3
                      in case to_cuda_error e of
                           Some m \<Rightarrow>
                             (Inl (RuntimeError (''Model initialization failed: '' @ m)),
                              logger ERROR (''Failed to load model: '' @ m) s4)
                         | None \<Rightarrow> (Inr (self\<lparr>model := Some (loaded\<lparr>on_gpu := True\<rparr>)\<rparr>), s4))
                else (Inr (self\<lparr>model := Some loaded\<rparr>),
                      logger INFO ''Using CPU (consider using GPU for better performance)'' s3)))"

text \<open>\<^verbatim>\<open>ModelService()\<close>: a new object, then \<^verbatim>\<open>__init__\<close>.\<close>

definition ModelService_init :: "env \<Rightarrow> state \<Rightarrow> (exn + ModelService) \<times> state" where
  "ModelService_init e s =
     load_model e \<lparr>obj_id = constructed s, model = None, model_name = MODEL_NAME\<rparr>
       (s\<lparr>constructed := Suc (constructed s)\<rparr>)"

record transcription =
  res_text :: string
  res_language :: string
  res_confidence :: "real option"

definition ModelService_transcribe ::
  "env \<Rightarrow> ModelService \<Rightarrow> path \<Rightarrow> state \<Rightarrow> (exn + transcription) \<times> state"
where
  "ModelService_transcribe e self audio_path s =
     (case model self of
        None \<Rightarrow> (Inl (RuntimeError ''Model not loaded''), s)
      | Some m \<Rightarrow>
         (let s1 = logger INFO (''Transcribing audio file: '' @ audio_path) s;
              failed = (\<lambda>msg. (Inl (RuntimeError (''Transcription failed: '' @ msg)),
                               logger ERROR (''Transcription failed: '' @ msg) s1))
          in case nemo_transcribe e m [map_of (fs s1) audio_path] of
               Inl msg \<Rightarrow> failed msg
             | Inr [] \<Rightarrow> failed ''list index out of range''
             | Inr (out # outs) \<Rightarrow>
                (let txt = (case out of StrOut t \<Rightarrow> t | Hypothesis t l \<Rightarrow> t);
                     lang = (case out of
                               StrOut t \<Rightarrow> ''auto-detected''
                             | Hypothesis t None \<Rightarrow> ''auto-detected''
                             | Hypothesis t (Some l) \<Rightarrow> l)
                 in (Inr \<lparr>res_text = txt, res_language = lang, res_confidence = None\<rparr>,
                     logger INFO (''Transcription successful: '' @ [CHR 0x27] @ take 50 txt
                                  @ ''...'' @ [CHR 0x27]) s1))))"

record model_info_dict =
  info_model_name :: string
  device :: string
  status :: string

definition get_model_info :: "env \<Rightarrow> ModelService \<Rightarrow> model_info_dict" where
  "get_model_info e self =
     \<lparr> info_model_name = model_name self,
       device = (if cuda_available e then ''cuda'' else ''cpu''),
       status = (if model self \<noteq> None then ''loaded'' else ''not loaded'') \<rparr>"

definition get_model_service :: "env \<Rightarrow> state \<Rightarrow> (exn + ModelService) \<times> state" where
  "get_model_service e s =
     (case model_service_instance s of
        None \<Rightarrow>
         (case ModelService_init e s of
            (Inl x, s') \<Rightarrow> (Inl x, s')
          | (Inr ms, s') \<Rightarrow> (Inr ms, s'\<lparr>model_service_instance := Some ms\<rparr>))
      | Some ms \<Rightarrow> (Inr ms, s))"

text \<open>
  Several sequential calls of \<^verbatim>\<open>get_model_service\<close>: the result of each call with
  the state it leaves.
\<close>

fun call_seq :: "env \<Rightarrow> nat \<Rightarrow> state \<Rightarrow> ((exn + ModelService) \<times> state) list" where
  "call_seq e 0 s = []"
| "call_seq e (Suc n) s =
     (let r = get_model_service e s in r # call_seq e n (snd r))"

text \<open>
  Calls of \<^verbatim>\<open>get_model_service\<close> on several threads. The function has no lock, so a
  thread can be suspended between its statements: after the test of line 161, after
  the assignment of line 162, before the \<^verbatim>\<open>return\<close> of line 164. A schedule names
  the thread that runs its next statement.
\<close>

datatype pc =
    AtTest
  | AtAssign
  | AtReturn
  | Returned "ModelService option"
  | Raised exn

definition thread_step :: "env \<Rightarrow> pc \<Rightarrow> state \<Rightarrow> pc \<times> state" where
  "thread_step e c s =
     (case c of
        AtTest \<Rightarrow> (if model_service_instance s = None then AtAssign else AtReturn, s)
      | AtAssign \<Rightarrow>
         (case ModelService_init e s of
            (Inl x, s') \<Rightarrow> (Raised x, s')
          | (Inr ms, s') \<Rightarrow> (AtReturn, s'\<lparr>model_service_instance := Some ms\<rparr>))
      | AtReturn \<Rightarrow> (Returned (model_service_instance s), s)
      | Returned r \<Rightarrow> (Returned r, s)
      | Raised x \<Rightarrow> (Raised x, s))"

fun run_schedule :: "env \<Rightarrow> nat list \<Rightarrow> pc list \<times> state \<Rightarrow> pc list \<times> state" where
  "run_schedule e [] cfg = cfg"
| "run_schedule e (t # ts) (pcs, s) =
     (if t < length pcs
      then (let (c, s') = thread_step e (pcs ! t) s in run_schedule e ts (pcs[t := c], s'))
      else run_schedule e ts (pcs, s))"

section \<open>app.py\<close>

definition startup_event :: "env \<Rightarrow> state \<Rightarrow> (exn + unit) \<times> state" where
  "startup_event e s0 =
     (let s1 = logger INFO ''Starting up application...'' s0;
          s2 = logger INFO ''Loading ASR model (this may take a few minutes)...'' s1
      in case get_model_service e s2 of
           (Inl x, s3) \<Rightarrow> (Inl x, logger ERROR (''Failed to initialize model: '' @ str_exn x) s3)
         | (Inr ms, s3) \<Rightarrow>
             (Inr (), logger INFO ''Application ready!'' (s3\<lparr>model_service := Some ms\<rparr>)))"

record health_dict =
  health_status :: string
  health_model :: model_info_dict

definition health_check :: "env \<Rightarrow> state \<Rightarrow> exn + health_dict" where
  "health_check e s =
     (case model_service s of
        None \<Rightarrow> Inl (HTTPException 503 ''Model not initialized'')
      | Some ms \<Rightarrow> Inr \<lparr>health_status = ''healthy'', health_model = get_model_info e ms\<rparr>)"

definition model_info :: "env \<Rightarrow> state \<Rightarrow> exn + model_info_dict" where
  "model_info e s =
     (case model_service s of
        None \<Rightarrow> Inl (HTTPException 503 ''Model not initialized'')
      | Some ms \<Rightarrow> Inr (get_model_info e ms))"

record upload_file =
  filename :: string
  data :: "nat list"

record response =
  success :: bool
  resp_text :: string
  resp_language :: string
  audio_duration :: real
  original_filename :: string

definition input_path_of :: "env \<Rightarrow> string \<Rightarrow> string \<Rightarrow> path" where
  "input_path_of e file_id file_extension =
     os_path_join (TEMP_DIR e) (file_id @ ''_input'' @ file_extension)"

definition wav_path_of :: "env \<Rightarrow> string \<Rightarrow> path" where
  "wav_path_of e file_id = os_path_join (TEMP_DIR e) (file_id @ ''_converted.wav'')"

text \<open>
  The body of the \<^verbatim>\<open>try\<close> block of \<^verbatim>\<open>transcribe_audio\<close> (lines 124 to 161).
  The two inner handlers catch \<^verbatim>\<open>ValueError\<close> only; any other exception leaves the
  block as it is.
\<close>

definition try_body ::
  "env \<Rightarrow> ModelService \<Rightarrow> upload_file \<Rightarrow> path \<Rightarrow> path \<Rightarrow> state \<Rightarrow> (exn + response) \<times> state"
where
  "try_body e ms audio input_path wav_path s0 =
     (let s1 = logger INFO (''Receiving audio file: '' @ filename audio) s0;
          (werr, fs1) = write_node e (open_error e) (fs s1) input_path (Bytes (data audio));
          s2 = s1\<lparr>fs := fs1\<rparr>
      in case werr of
           Some m \<Rightarrow> (Inl (OtherError m), s2)
         | None \<Rightarrow>
            (let s3 = logger INFO ''Converting audio to 16kHz WAV format...'' s2;
                 (converted, fs2) = convert_to_wav e (fs s3) input_path (Some wav_path);
                 s4 = s3\<lparr>fs := fs2\<rparr>
             in case converted of
                  Inl x \<Rightarrow>
                   (case x of
                      ValueError m \<Rightarrow>
                        (Inl (HTTPException 400 (''Audio conversion failed: '' @ m)),
                         logger ERROR (''Audio conversion error: '' @ m) s4)
                    | _ \<Rightarrow> (Inl x, s4))
                | Inr p \<Rightarrow>
                   (case validate_audio e (fs s4) wav_path of
                      Inl x \<Rightarrow>
                       (case x of
                          ValueError m \<Rightarrow>
                            (Inl (HTTPException 400 m),
                             logger ERROR (''Audio validation error: '' @ m) s4)
                        | _ \<Rightarrow> (Inl x, s4))
                    | Inr info \<Rightarrow>
                       (let s5 = logger INFO (''Audio validated: ''
                                              @ format_float e 2 (duration info)
                                              @ ''s'') s4;
                            s6 = logger INFO ''Transcribing audio...'' s5;
                            (result, s7) = ModelService_transcribe e ms wav_path s6
                        in case result of
                             Inl x \<Rightarrow> (Inl x, s7)
                           | Inr r \<Rightarrow>
                              (Inr \<lparr> success = True, resp_text = res_text r,
                                     resp_language = res_language r,
                                     audio_duration = duration info,
                                     original_filename = filename audio \<rparr>,
                               logger INFO (''Transcription completed: ''
                                            @ show_nat (length (res_text r)) @ '' characters'')
                                 s7)))))"

text \<open>
  The outer handlers (lines 163 to 170): an \<^verbatim>\<open>HTTPException\<close> is raised again,
  any other exception becomes status 500.
\<close>

definition except_clauses :: "(exn + response) \<times> state \<Rightarrow> (exn + response) \<times> state" where
  "except_clauses rs =
     (case rs of
        (Inr r, s) \<Rightarrow> (Inr r, s)
      | (Inl x, s) \<Rightarrow>
         (case x of
            HTTPException c d \<Rightarrow> (Inl x, s)
          | _ \<Rightarrow> (Inl (HTTPException 500 (''Transcription failed: '' @ str_exn x)),
                  logger ERROR (''Transcription error: '' @ str_exn x) s)))"

text \<open>
  The \<^verbatim>\<open>finally\<close> block (lines 172 to 180): both removals stand in one
  \<^verbatim>\<open>try\<close>, whose handler logs a warning.
\<close>

definition finally_block :: "env \<Rightarrow> path \<Rightarrow> path \<Rightarrow> state \<Rightarrow> state" where
  "finally_block e input_path wav_path s =
     (case (if os_path_exists (fs s) input_path then os_remove e (fs s) input_path
            else Inr (fs s)) of
        Inl x \<Rightarrow> logger WARNING (''Failed to cleanup temp files: '' @ str_exn x) s
      | Inr fs1 \<Rightarrow>
         (case (if os_path_exists fs1 wav_path then os_remove e fs1 wav_path else Inr fs1) of
            Inl x \<Rightarrow>
              logger WARNING (''Failed to cleanup temp files: '' @ str_exn x) (s\<lparr>fs := fs1\<rparr>)
          | Inr fs2 \<Rightarrow> s\<lparr>fs := fs2\<rparr>))"

text \<open>
  \<^verbatim>\<open>POST /transcribe\<close>. \<open>file_id\<close> is the string of the \<^verbatim>\<open>uuid.uuid4()\<close>
  drawn for the request.
\<close>

definition transcribe_audio ::
  "env \<Rightarrow> string \<Rightarrow> upload_file \<Rightarrow> state \<Rightarrow> (exn + response) \<times> state"
where
  "transcribe_audio e file_id audio s =
     (case model_service s of
        None \<Rightarrow> (Inl (HTTPException 503 ''Model not initialized''), s)
      | Some ms \<Rightarrow>
         (let file_extension = lower (path_suffix (filename audio))
          in if file_extension \<notin> set ALLOWED_FORMATS
             then (Inl (HTTPException 400 (''Unsupported file format. Allowed formats: ''
                                            @ join_str '', '' ALLOWED_FORMATS)), s)
             else (let input_path = input_path_of e file_id file_extension;
                       wav_path = wav_path_of e file_id;
                       (r, s') = except_clauses (try_body e ms audio input_path wav_path s)
                   in (r, finally_block e input_path wav_path s'))))"

text \<open>\<^verbatim>\<open>DELETE /cleanup\<close>; \<open>remove_files\<close> is its loop.\<close>

record cleanup_dict =
  cleanup_success :: bool
  files_deleted :: nat

fun remove_files :: "env \<Rightarrow> path \<Rightarrow> string list \<Rightarrow> filesystem \<Rightarrow> exn option \<times> filesystem" where
  "remove_files e d [] fsys = (None, fsys)"
| "remove_files e d (file # files) fsys =
     (let file_path = os_path_join d file
      in if os_path_isfile fsys file_path
         then (case os_remove e fsys file_path of
                 Inl x \<Rightarrow> (Some x, fsys)
               | Inr fsys' \<Rightarrow> remove_files e d files fsys')
         else remove_files e d files fsys)"

definition cleanup_temp_files :: "env \<Rightarrow> state \<Rightarrow> (exn + cleanup_dict) \<times> state" where
  "cleanup_temp_files e s =
     (case os_listdir e (fs s) (TEMP_DIR e) of
        Inl x \<Rightarrow> (Inl (HTTPException 500 (''Cleanup failed: '' @ str_exn x)), s)
      | Inr files \<Rightarrow>
         (case remove_files e (TEMP_DIR e) files (fs s) of
            (Some x, fsys) \<Rightarrow>
              (Inl (HTTPException 500 (''Cleanup failed: '' @ str_exn x)), s\<lparr>fs := fsys\<rparr>)
          | (None, fsys) \<Rightarrow>
              (Inr \<lparr>cleanup_success = True, files_deleted = length files\<rparr>, s\<lparr>fs := fsys\<rparr>)))"

section \<open>Example runs\<close>

text \<open>
  A machine without GPU on which every download succeeds. Its decoder reads the first
  byte of an upload as a length in seconds of stereo sound at 48 kHz; the disk is full
  for the request \<open>full\<close>, the input file of the request \<open>busy\<close> cannot be removed,
  and the model fails on two seconds of sound.
\<close>

text \<open>
  The decimal with \<open>k\<close> places that is nearest to \<open>x\<close>, ties to even: what
  \<^verbatim>\<open>.kf\<close> prints for a float whose value is \<open>x\<close>. The durations of the
  examples are whole numbers of seconds (2, 3 and 1500), which are such floats.
\<close>

definition round_half_even :: "real \<Rightarrow> int" where
  "round_half_even x =
     (let f = \<lfloor>x\<rfloor>; r = x - of_int f
      in if r < 1 / 2 then f else if 1 / 2 < r then f + 1
         else if even f then f else f + 1)"

definition format_exact :: "nat \<Rightarrow> real \<Rightarrow> string" where
  "format_exact k x =
     (let n = nat (round_half_even (\<bar>x\<bar> * 10 ^ k));
          frac = show_nat (n mod 10 ^ k)
      in (if x < 0 then ''-'' else [])
         @ show_nat (n div 10 ^ k)
         @ (if k = 0 then [] else ''.'' @ replicate (k - length frac) (CHR ''0'') @ frac))"

definition example_env :: env where
  "example_env =
     \<lparr> base_dir = ''/srv'',
       decode_bytes =
         (\<lambda>b. case b of
                [] \<Rightarrow> Inl ''no audio data''
              | x # xs \<Rightarrow> Inr (Multi 2 (x * 48000), 48000)),
       open_error =
         (\<lambda>p. if p = ''/srv/uploads/temp/full_input.wav''
              then Some ''No space left on device'' else None),
       sf_write_error = (\<lambda>p. None),
       partial_write = (\<lambda>p. False),
       remove_error =
         (\<lambda>p. if p = ''/srv/uploads/temp/busy_input.wav''
              then Some ''Permission denied'' else None),
       listdir_error = (\<lambda>p. None),
       from_pretrained = (\<lambda>k n. None),
       to_cuda_error = None,
       nemo_transcribe =
         (\<lambda>m ns. if ns = [Some (File (Sound (Flat 32000) 16000))]
                 then Inl ''device failure''
                 else Inr [Hypothesis ''hello'' None]),
       cuda_available = False,
       cuda_device_name = [],
       format_float = format_exact \<rparr>"

text \<open>
  The process before \<^verbatim>\<open>startup_event\<close>, the service that the first construction
  builds on this machine, and the process once it has started (its log left out).
\<close>

definition fresh_state :: state where
  "fresh_state =
     \<lparr> fs = [], logs = [], model_service = None, model_service_instance = None,
       constructed = 0 \<rparr>"

definition example_service :: "nat \<Rightarrow> ModelService" where
  "example_service k =
     \<lparr> obj_id = k,
       model = Some \<lparr>pretrained_name = MODEL_NAME, on_gpu = False\<rparr>,
       model_name = MODEL_NAME \<rparr>"

definition ready_state :: state where
  "ready_state =
     \<lparr> fs = [], logs = [], model_service = Some (example_service 0),
       model_service_instance = Some (example_service 0), constructed = 1 \<rparr>"

text \<open>Some files of the temporary directory, for the examples.\<close>

definition example_fs :: filesystem where
  "example_fs =
     [(''/srv/uploads/temp/long.wav'', File (Sound (Flat 24000000) 16000)),
      (''/srv/uploads/temp/short.wav'', File (Sound (Flat 48000) 16000)),
      (''/srv/uploads/temp/clip.mp3'', File (Bytes [3])),
      (''/srv/uploads/temp/archive'', Dir)]"

section \<open>The model service\<close>

lemma startup_example:
  "startup_event example_env fresh_state =
     (Inr (), ready_state\<lparr>logs := logs (snd (startup_event example_env fresh_state))\<rparr>)"
  by (simp add: startup_event_def example_env_def fresh_state_def ready_state_def example_service_def
      get_model_service_def ModelService_init_def load_model_def logger_def)

lemma load_model_instance:
  "load_model e self s = (r, s') \<Longrightarrow> model_service_instance s' = model_service_instance s"
  by (auto simp: load_model_def logger_def Let_def split: option.splits if_splits)

lemma load_model_loaded:
  "load_model e self s = (Inr ms, s') \<Longrightarrow> model ms \<noteq> None"
  by (auto simp: load_model_def logger_def Let_def split: option.splits if_splits)

lemma get_model_service_installs:
  "get_model_service e s = (Inr ms, s') \<Longrightarrow> model_service_instance s' = Some ms"
  by (auto simp: get_model_service_def split: option.splits prod.splits sum.splits)

lemma get_model_service_reuses:
  "model_service_instance s = Some ms \<Longrightarrow> get_model_service e s = (Inr ms, s)"
  by (simp add: get_model_service_def)

lemma get_model_service_raises:
  "get_model_service e s = (Inl x, s') \<Longrightarrow> model_service_instance s' = None"
  by (auto simp: get_model_service_def ModelService_init_def split: option.splits prod.splits sum.splits
      dest: load_model_instance)

lemma get_model_service_loaded:
  "model_service_instance s = None \<Longrightarrow> get_model_service e s = (Inr ms, s') \<Longrightarrow> model ms \<noteq> None"
  by (auto simp: get_model_service_def ModelService_init_def split: option.splits prod.splits sum.splits
      dest: load_model_loaded)

lemma call_seq_reuses:
  "model_service_instance s = Some ms \<Longrightarrow> call_seq e n s = replicate n (Inr ms, s)"
  by (induction n) (simp_all add: get_model_service_reuses Let_def)

lemma call_seq_length: "length (call_seq e n s) = n"
  by (induction n arbitrary: s) (simp_all add: Let_def)

lemma call_seq_loaded:
  assumes "case model_service_instance s of None \<Rightarrow> True | Some m \<Rightarrow> model m \<noteq> None"
    and "(Inr ms, s') \<in> set (call_seq e n s)"
  shows "model ms \<noteq> None"
  using assms
proof (induction n arbitrary: s)
  case 0
  then show ?case by simp
next
  case (Suc n)
  obtain r t where r: "get_model_service e s = (r, t)" by (cases "get_model_service e s")
  have inv: "case model_service_instance t of None \<Rightarrow> True | Some m \<Rightarrow> model m \<noteq> None"
  proof (cases "model_service_instance s")
    case None
    show ?thesis
    proof (cases r)
      case (Inl x)
      with r have "model_service_instance t = None" by (simp add: get_model_service_raises)
      then show ?thesis by simp
    next
      case (Inr m)
      with r None have "model m \<noteq> None" "model_service_instance t = Some m"
        by (auto dest: get_model_service_loaded get_model_service_installs)
      then show ?thesis by simp
    qed
  next
    case (Some m)
    with r have "t = s" by (simp add: get_model_service_reuses)
    with Suc.prems(1) show ?thesis by simp
  qed
  from Suc.prems(2) r have "(Inr ms, s') = (r, t) \<or> (Inr ms, s') \<in> set (call_seq e n t)"
    by (simp add: Let_def)
  then show ?case
  proof
    assume "(Inr ms, s') = (r, t)"
    with r have g: "get_model_service e s = (Inr ms, s')" by simp
    show ?thesis
    proof (cases "model_service_instance s")
      case None
      from None g show ?thesis by (rule get_model_service_loaded)
    next
      case (Some m)
      with g have "ms = m" by (simp add: get_model_service_reuses)
      with Some Suc.prems(1) show ?thesis by simp
    qed
  next
    assume "(Inr ms, s') \<in> set (call_seq e n t)"
    with inv show ?thesis by (rule Suc.IH)
  qed
qed

text \<open>
  A thread that runs alone executes \<^verbatim>\<open>get_model_service\<close>: the three
  statements of the thread model are the function.
\<close>

lemma single_thread_run:
  "run_schedule e [0, 0, 0] ([AtTest], s) =
     (case get_model_service e s of
        (Inl x, s') \<Rightarrow> ([Raised x], s')
      | (Inr ms, s') \<Rightarrow> ([Returned (Some ms)], s'))"
  by (auto simp: thread_step_def get_model_service_def split: option.splits prod.splits sum.splits)

lemma suffix_notes_txt: "lower (path_suffix ''notes.txt'') = ''.txt''"
  by (simp add: lower_def lower_char_def path_suffix_def path_name_def rfind_def)

section \<open>Audio files\<close>

lemma show_nat_1440: "show_nat 1440 = ''1440''"
  by (simp add: show_nat.simps)

lemma write_node_written:
  "write_node e err fsys p c = (None, fsys') \<Longrightarrow> map_of fsys' p = Some (File c)"
  by (auto simp: write_node_def update_conv' split: option.splits node.splits if_splits)

lemma librosa_load_mono:
  "librosa_load e fsys p (Some r) True = Inr (y, sr) \<Longrightarrow> sr = r \<and> ndim y = 1"
proof -
  have mono: "ndim (to_mono z) = 1" for z by (cases z) simp_all
  have keep: "ndim (with_samples z k) = ndim z" for z k by (cases z) simp_all
  have res: "librosa_resample z a b = Inr z' \<Longrightarrow> ndim z' = ndim z" for z a b z'
    by (auto simp: librosa_resample_def Let_def keep split: if_splits)
  assume "librosa_load e fsys p (Some r) True = Inr (y, sr)"
  then show ?thesis
    by (auto simp: librosa_load_def mono split: option.splits node.splits sum.splits prod.splits
        dest!: res)
qed

lemma convert_to_wav_result:
  assumes "convert_to_wav e fsys input_path output_path = (Inr p, fsys')"
  shows "(\<exists>n. map_of fsys' p = Some (File (Sound (Flat n) SAMPLE_RATE)))
       \<and> p = (case output_path of
                 None \<Rightarrow> rsplit_dot_head input_path @ ''_converted.wav''
               | Some q \<Rightarrow> q)"
proof -
  from assms obtain y sr where
    l: "librosa_load e fsys input_path (Some SAMPLE_RATE) True = Inr (y, sr)"
    by (auto simp: convert_to_wav_def split: sum.splits)
  then have "ndim y = 1" by (auto dest: librosa_load_mono)
  then obtain n where y: "y = Flat n" by (cases y) simp_all
  from assms l y show ?thesis
    by (auto simp: convert_to_wav_def sf_write_def Let_def split: prod.splits option.splits
        dest: write_node_written)
qed

section \<open>The transcription request\<close>

text \<open>What each stage of the pipeline can raise, and what it reads.\<close>

lemma convert_to_wav_raises:
  "convert_to_wav e fsys i out = (Inl x, fsys') \<Longrightarrow> \<exists>m. x = ValueError m"
  by (auto simp: convert_to_wav_def Let_def split: sum.splits prod.splits option.splits)

lemma validate_audio_raises:
  "validate_audio e fsys p = Inl x \<Longrightarrow> \<exists>m. x = ValueError m"
  by (auto simp: validate_audio_def split: sum.splits prod.splits if_splits)

lemma transcribe_raises:
  "fst (ModelService_transcribe e ms p s) = Inl x \<Longrightarrow> \<exists>m. x = RuntimeError m"
  by (auto simp: ModelService_transcribe_def Let_def split: option.splits sum.splits list.splits)

lemma transcribe_fs:
  "fs (snd (ModelService_transcribe e ms p s)) = fs s"
  by (auto simp: ModelService_transcribe_def Let_def logger_def split: option.splits sum.splits list.splits)

lemma transcribe_reads_fs:
  "fs s = fs s' \<Longrightarrow> fst (ModelService_transcribe e ms p s) = fst (ModelService_transcribe e ms p s')"
  by (auto simp: ModelService_transcribe_def Let_def logger_def split: option.splits sum.splits list.splits)

text \<open>The result of the \<^verbatim>\<open>try\<close> block, stage by stage.\<close>

lemma try_body_open_failed:
  assumes "write_node e (open_error e) (fs s) inp (Bytes (data audio)) = (Some m, fs1)"
  shows "fst (try_body e ms audio inp wav s) = Inl (OtherError m)"
    and "fs (snd (try_body e ms audio inp wav s)) = fs1"
  using assms by (simp_all add: try_body_def logger_def)

lemma try_body_convert_failed:
  assumes "write_node e (open_error e) (fs s) inp (Bytes (data audio)) = (None, fs1)"
    and "convert_to_wav e fs1 inp (Some wav) = (Inl (ValueError m), fs2)"
  shows "fst (try_body e ms audio inp wav s) = Inl (HTTPException 400 (''Audio conversion failed: '' @ m))"
    and "fs (snd (try_body e ms audio inp wav s)) = fs2"
  using assms by (simp_all add: try_body_def logger_def)

lemma try_body_validate_failed:
  assumes "write_node e (open_error e) (fs s) inp (Bytes (data audio)) = (None, fs1)"
    and "convert_to_wav e fs1 inp (Some wav) = (Inr p, fs2)"
    and "validate_audio e fs2 wav = Inl (ValueError m)"
  shows "fst (try_body e ms audio inp wav s) = Inl (HTTPException 400 m)"
    and "fs (snd (try_body e ms audio inp wav s)) = fs2"
  using assms by (simp_all add: try_body_def logger_def)

lemma try_body_validated:
  assumes "write_node e (open_error e) (fs s) inp (Bytes (data audio)) = (None, fs1)"
    and "convert_to_wav e fs1 inp (Some wav) = (Inr p, fs2)"
    and "validate_audio e fs2 wav = Inr info"
  shows "fst (try_body e ms audio inp wav s) =
           (case fst (ModelService_transcribe e ms wav (s\<lparr>fs := fs2\<rparr>)) of
              Inl x \<Rightarrow> Inl x
            | Inr r \<Rightarrow> Inr \<lparr> success = True, resp_text = res_text r, resp_language = res_language r,
                              audio_duration = duration info, original_filename = filename audio \<rparr>)"
    and "fs (snd (try_body e ms audio inp wav s)) = fs2"
proof -
  let ?s6 = "logger INFO ''Transcribing audio...''
      (logger INFO (''Audio validated: '' @ format_float e 2 (duration info) @ ''s'')
        (logger INFO ''Converting audio to 16kHz WAV format...''
          (logger INFO (''Receiving audio file: '' @ filename audio) s \<lparr>fs := fs1\<rparr>) \<lparr>fs := fs2\<rparr>))"
  have f: "fs ?s6 = fs (s\<lparr>fs := fs2\<rparr>)" by (simp add: logger_def)
  have t: "fst (ModelService_transcribe e ms wav ?s6) = fst (ModelService_transcribe e ms wav (s\<lparr>fs := fs2\<rparr>))"
    by (rule transcribe_reads_fs [OF f])
  have u: "fs (snd (ModelService_transcribe e ms wav ?s6)) = fs2"
    by (simp add: transcribe_fs) (simp add: logger_def)
  obtain tr s7 where r: "ModelService_transcribe e ms wav ?s6 = (tr, s7)"
    by (cases "ModelService_transcribe e ms wav ?s6")
  have b: "try_body e ms audio inp wav s =
      (case tr of Inl x \<Rightarrow> (Inl x, s7)
       | Inr r \<Rightarrow> (Inr \<lparr> success = True, resp_text = res_text r, resp_language = res_language r,
                              audio_duration = duration info, original_filename = filename audio \<rparr>,
                  logger INFO (''Transcription completed: '' @ show_nat (length (res_text r)) @ '' characters'') s7))"
    using assms r by (simp add: try_body_def Let_def logger_def)
  from b t r show "fst (try_body e ms audio inp wav s) =
           (case fst (ModelService_transcribe e ms wav (s\<lparr>fs := fs2\<rparr>)) of
              Inl x \<Rightarrow> Inl x
            | Inr r \<Rightarrow> Inr \<lparr> success = True, resp_text = res_text r, resp_language = res_language r,
                              audio_duration = duration info, original_filename = filename audio \<rparr>)"
    by (auto split: sum.splits)
  from b u r show "fs (snd (try_body e ms audio inp wav s)) = fs2"
    by (auto simp: logger_def split: sum.splits)
qed

lemma except_clauses_fs: "fs (snd (except_clauses rs)) = fs (snd rs)"
  by (auto simp: except_clauses_def logger_def split: prod.splits sum.splits exn.splits)

lemma except_clauses_result:
  "fst (except_clauses rs) =
     (case fst rs of
        Inr r \<Rightarrow> Inr r
      | Inl (HTTPException c d) \<Rightarrow> Inl (HTTPException c d)
      | Inl x \<Rightarrow> Inl (HTTPException 500 (''Transcription failed: '' @ str_exn x)))"
  by (auto simp: except_clauses_def split: prod.splits sum.splits exn.splits)

lemma transcribe_audio_pipeline:
  assumes "model_service s = Some ms"
    and "lower (path_suffix (filename audio)) \<in> set ALLOWED_FORMATS"
    and "inp = input_path_of e file_id (lower (path_suffix (filename audio)))"
    and "wav = wav_path_of e file_id"
  shows "transcribe_audio e file_id audio s =
           (fst (except_clauses (try_body e ms audio inp wav s)),
            finally_block e inp wav (snd (except_clauses (try_body e ms audio inp wav s))))"
  using assms by (simp add: transcribe_audio_def Let_def split: prod.splits)

text \<open>
  Nothing before the \<^verbatim>\<open>finally\<close> block asks whether a file can be removed,
  and nothing it does creates a directory.
\<close>

lemma decode_remove_error: "decode (e\<lparr>remove_error := rm\<rparr>) c = decode e c"
  by (cases c) simp_all

lemma write_node_remove_error:
  "write_node (e\<lparr>remove_error := rm\<rparr>) err fsys p c = write_node e err fsys p c"
  by (simp add: write_node_def split: option.splits node.splits)

lemma librosa_load_remove_error:
  "librosa_load (e\<lparr>remove_error := rm\<rparr>) fsys p sr m = librosa_load e fsys p sr m"
  by (simp add: librosa_load_def decode_remove_error split: option.splits node.splits)

lemma convert_to_wav_remove_error:
  "convert_to_wav (e\<lparr>remove_error := rm\<rparr>) fsys i out = convert_to_wav e fsys i out"
  by (simp add: convert_to_wav_def sf_write_def librosa_load_remove_error write_node_remove_error
      split: sum.splits)

lemma validate_audio_remove_error:
  "validate_audio (e\<lparr>remove_error := rm\<rparr>) fsys p = validate_audio e fsys p"
  by (simp add: validate_audio_def librosa_load_remove_error split: sum.splits prod.splits)

lemma transcribe_remove_error:
  "ModelService_transcribe (e\<lparr>remove_error := rm\<rparr>) ms p s = ModelService_transcribe e ms p s"
  by (simp add: ModelService_transcribe_def split: option.splits)

lemma open_error_remove_error: "open_error (e\<lparr>remove_error := rm\<rparr>) = open_error e"
  by simp

lemma format_float_remove_error: "format_float (e\<lparr>remove_error := rm\<rparr>) = format_float e"
  by simp

lemma try_body_remove_error:
  "try_body (e\<lparr>remove_error := rm\<rparr>) ms audio inp wav s = try_body e ms audio inp wav s"
  unfolding try_body_def write_node_remove_error convert_to_wav_remove_error
    validate_audio_remove_error transcribe_remove_error open_error_remove_error
    format_float_remove_error
  by (rule refl)

lemma paths_remove_error:
  "input_path_of (e\<lparr>remove_error := rm\<rparr>) i x = input_path_of e i x"
  "wav_path_of (e\<lparr>remove_error := rm\<rparr>) i = wav_path_of e i"
  by (simp_all add: input_path_of_def wav_path_of_def TEMP_DIR_def UPLOAD_DIR_def)

lemma response_remove_error:
  "fst (transcribe_audio (e\<lparr>remove_error := rm\<rparr>) file_id audio s)
     = fst (transcribe_audio e file_id audio s)"
  by (simp add: transcribe_audio_def Let_def try_body_remove_error paths_remove_error
      split: option.splits prod.splits)







lemma finally_block_first_fails:
  assumes "os_path_exists (fs s) inp" and "os_remove e (fs s) inp = Inl x"
  shows "finally_block e inp wav s = logger WARNING (''Failed to cleanup temp files: '' @ str_exn x) s"
  using assms by (simp add: finally_block_def)

text \<open>
  \<^verbatim>\<open>DELETE /cleanup\<close>: the count is the length of the listing; a
  failure is status 500; after a successful run no listed entry is a regular file.
\<close>

lemma cleanup_temp_files_count:
  assumes "cleanup_temp_files e s = (Inr d, s')"
    and "os_listdir e (fs s) (TEMP_DIR e) = Inr names"
  shows "files_deleted d = length names"
  using assms by (auto simp: cleanup_temp_files_def split: prod.splits option.splits)

lemma cleanup_temp_files_status:
  "(\<exists>d. fst (cleanup_temp_files e s) = Inr d)
   \<or> (\<exists>m. fst (cleanup_temp_files e s) = Inl (HTTPException 500 (''Cleanup failed: '' @ m)))"
  by (auto simp: cleanup_temp_files_def split: sum.splits prod.splits option.splits)

lemma remove_files_shrinks:
  "remove_files e d names fsys = (r, fsys') \<Longrightarrow>
     map_of fsys' p = None \<or> map_of fsys' p = map_of fsys p"
proof (induction names arbitrary: fsys)
  case Nil
  then show ?case by simp
next
  case (Cons n names)
  show ?case
  proof (cases "os_path_isfile fsys (os_path_join d n)")
    case False
    with Cons show ?thesis by (simp add: Let_def)
  next
    case True
    show ?thesis
    proof (cases "os_remove e fsys (os_path_join d n)")
      case (Inl x)
      with True Cons.prems show ?thesis by (simp add: Let_def)
    next
      case (Inr f)
      then have f: "f = AList.delete (os_path_join d n) fsys"
        by (auto simp: os_remove_def split: option.splits node.splits)
      from True Inr Cons.prems have "remove_files e d names f = (r, fsys')"
        by (simp add: Let_def)
      from Cons.IH [OF this] f show ?thesis
        by (auto simp: delete_conv')
    qed
  qed
qed

lemma remove_files_removes:
  "remove_files e d names fsys = (None, fsys') \<Longrightarrow> n \<in> set names \<Longrightarrow>
     \<not> os_path_isfile fsys' (os_path_join d n)"
proof (induction names arbitrary: fsys)
  case Nil
  then show ?case by simp
next
  case (Cons a names)
  let ?p = "os_path_join d a"
  show ?case
  proof (cases "os_path_isfile fsys ?p")
    case False
    with Cons.prems(1) have rest: "remove_files e d names fsys = (None, fsys')"
      by (simp add: Let_def)
    show ?thesis
    proof (cases "n = a")
      case True
      from remove_files_shrinks [OF rest, of ?p] False True show ?thesis
        by (auto simp: os_path_isfile_def split: option.splits node.splits)
    next
      case False
      with Cons.prems(2) have "n \<in> set names" by simp
      with rest show ?thesis by (rule Cons.IH)
    qed
  next
    case True
    with Cons.prems(1) obtain f where f: "os_remove e fsys ?p = Inr f"
      and rest: "remove_files e d names f = (None, fsys')"
      by (auto simp: Let_def split: sum.splits)
    from f have "map_of f ?p = None"
      by (auto simp: os_remove_def delete_conv' split: option.splits node.splits)
    with remove_files_shrinks [OF rest, of ?p] have gone: "map_of fsys' ?p = None" by auto
    show ?thesis
    proof (cases "n = a")
      case True
      with gone show ?thesis by (simp add: os_path_isfile_def)
    next
      case False
      with Cons.prems(2) have "n \<in> set names" by simp
      with rest show ?thesis by (rule Cons.IH)
    qed
  qed
qed

lemma cleanup_temp_files_removes:
  assumes "cleanup_temp_files e s = (Inr d, s')"
    and "os_listdir e (fs s) (TEMP_DIR e) = Inr names"
    and "n \<in> set names"
  shows "\<not> os_path_isfile (fs s') (os_path_join (TEMP_DIR e) n)"
proof -
  from assms(1,2) obtain f where "remove_files e (TEMP_DIR e) names (fs s) = (None, f)" "fs s' = f"
    by (auto simp: cleanup_temp_files_def split: prod.splits option.splits)
  with remove_files_removes [of e "TEMP_DIR e" names "fs s" f n] assms(3) show ?thesis by simp
qed

text \<open>The stages of the example requests.\<close>

lemmas path_eval = input_path_of_def wav_path_of_def TEMP_DIR_def UPLOAD_DIR_def os_path_join_def
  lower_def lower_char_def path_suffix_def path_name_def rfind_def

lemma example_paths:
  "lower (path_suffix ''talk.wav'') = ''.wav''"
  "input_path_of example_env ''4f1c'' ''.wav'' = ''/srv/uploads/temp/4f1c_input.wav''"
  "wav_path_of example_env ''4f1c'' = ''/srv/uploads/temp/4f1c_converted.wav''"
  "input_path_of example_env ''full'' ''.wav'' = ''/srv/uploads/temp/full_input.wav''"
  "wav_path_of example_env ''full'' = ''/srv/uploads/temp/full_converted.wav''"
  "input_path_of example_env ''busy'' ''.wav'' = ''/srv/uploads/temp/busy_input.wav''"
  "wav_path_of example_env ''busy'' = ''/srv/uploads/temp/busy_converted.wav''"
  by (simp_all add: path_eval example_env_def)

lemma format_1500: "format_float example_env 1 1500 = ''1500.0''"
  by (simp add: example_env_def format_exact_def round_half_even_def show_nat.simps)

lemma example_long:
  "write_node example_env (open_error example_env) (fs ready_state)
      ''/srv/uploads/temp/4f1c_input.wav'' (Bytes [1500])
     = (None, [(''/srv/uploads/temp/4f1c_input.wav'', File (Bytes [1500]))])"
  "convert_to_wav example_env [(''/srv/uploads/temp/4f1c_input.wav'', File (Bytes [1500]))]
      ''/srv/uploads/temp/4f1c_input.wav'' (Some ''/srv/uploads/temp/4f1c_converted.wav'')
     = (Inr ''/srv/uploads/temp/4f1c_converted.wav'',
        [(''/srv/uploads/temp/4f1c_input.wav'', File (Bytes [1500])),
         (''/srv/uploads/temp/4f1c_converted.wav'', File (Sound (Flat 24000000) 16000))])"
  "validate_audio example_env
        [(''/srv/uploads/temp/4f1c_input.wav'', File (Bytes [1500])),
         (''/srv/uploads/temp/4f1c_converted.wav'', File (Sound (Flat 24000000) 16000))]
        ''/srv/uploads/temp/4f1c_converted.wav''
     = Inl (ValueError ''Audio validation failed: Audio duration (1500.0s) exceeds maximum allowed duration (1440s)'')"
    apply (simp add: write_node_def example_env_def ready_state_def)
   apply (simp add: convert_to_wav_def librosa_load_def librosa_resample_def sf_write_def write_node_def
      SAMPLE_RATE_def example_env_def Let_def)
  using format_1500 apply (simp add: validate_audio_def librosa_load_def librosa_get_duration_def
      MAX_AUDIO_DURATION_def show_nat_1440)
  done

lemma example_ready:
  "model_service ready_state = Some (example_service 0)"
  "lower (path_suffix (filename \<lparr>filename = ''talk.wav'', data = d\<rparr>)) \<in> set ALLOWED_FORMATS"
  by (simp_all add: ready_state_def example_paths ALLOWED_FORMATS_def)

lemma example_empty:
  "write_node example_env (open_error example_env) (fs ready_state)
      ''/srv/uploads/temp/4f1c_input.wav'' (Bytes [])
     = (None, [(''/srv/uploads/temp/4f1c_input.wav'', File (Bytes []))])"
  "convert_to_wav example_env [(''/srv/uploads/temp/4f1c_input.wav'', File (Bytes []))]
      ''/srv/uploads/temp/4f1c_input.wav'' (Some ''/srv/uploads/temp/4f1c_converted.wav'')
     = (Inl (ValueError ''Failed to convert audio file: no audio data''),
        [(''/srv/uploads/temp/4f1c_input.wav'', File (Bytes []))])"
   apply (simp add: write_node_def example_env_def ready_state_def)
  apply (simp add: convert_to_wav_def librosa_load_def example_env_def)
  done

lemma example_two_seconds:
  "write_node example_env (open_error example_env) (fs ready_state)
      ''/srv/uploads/temp/4f1c_input.wav'' (Bytes [2])
     = (None, [(''/srv/uploads/temp/4f1c_input.wav'', File (Bytes [2]))])"
  "convert_to_wav example_env [(''/srv/uploads/temp/4f1c_input.wav'', File (Bytes [2]))]
      ''/srv/uploads/temp/4f1c_input.wav'' (Some ''/srv/uploads/temp/4f1c_converted.wav'')
     = (Inr ''/srv/uploads/temp/4f1c_converted.wav'',
        [(''/srv/uploads/temp/4f1c_input.wav'', File (Bytes [2])),
         (''/srv/uploads/temp/4f1c_converted.wav'', File (Sound (Flat 32000) 16000))])"
  "validate_audio example_env
        [(''/srv/uploads/temp/4f1c_input.wav'', File (Bytes [2])),
         (''/srv/uploads/temp/4f1c_converted.wav'', File (Sound (Flat 32000) 16000))]
        ''/srv/uploads/temp/4f1c_converted.wav''
     = Inr \<lparr>duration = 2, sample_rate = 16000, channels = 1, valid = True\<rparr>"
  "fst (ModelService_transcribe example_env (example_service 0) ''/srv/uploads/temp/4f1c_converted.wav''
         (ready_state\<lparr>fs :=
            [(''/srv/uploads/temp/4f1c_input.wav'', File (Bytes [2])),
             (''/srv/uploads/temp/4f1c_converted.wav'', File (Sound (Flat 32000) 16000))]\<rparr>))
     = Inl (RuntimeError ''Transcription failed: device failure'')"
     apply (simp add: write_node_def example_env_def ready_state_def)
    apply (simp add: convert_to_wav_def librosa_load_def librosa_resample_def sf_write_def write_node_def
      SAMPLE_RATE_def example_env_def Let_def)
   apply (simp add: validate_audio_def librosa_load_def librosa_get_duration_def MAX_AUDIO_DURATION_def)
  apply (simp add: ModelService_transcribe_def example_service_def example_env_def logger_def)
  done

lemma example_three_seconds:
  "write_node example_env (open_error example_env) (fs ready_state)
      ''/srv/uploads/temp/4f1c_input.wav'' (Bytes [3])
     = (None, [(''/srv/uploads/temp/4f1c_input.wav'', File (Bytes [3]))])"
  "convert_to_wav example_env [(''/srv/uploads/temp/4f1c_input.wav'', File (Bytes [3]))]
      ''/srv/uploads/temp/4f1c_input.wav'' (Some ''/srv/uploads/temp/4f1c_converted.wav'')
     = (Inr ''/srv/uploads/temp/4f1c_converted.wav'',
        [(''/srv/uploads/temp/4f1c_input.wav'', File (Bytes [3])),
         (''/srv/uploads/temp/4f1c_converted.wav'', File (Sound (Flat 48000) 16000))])"
  "validate_audio example_env
        [(''/srv/uploads/temp/4f1c_input.wav'', File (Bytes [3])),
         (''/srv/uploads/temp/4f1c_converted.wav'', File (Sound (Flat 48000) 16000))]
        ''/srv/uploads/temp/4f1c_converted.wav''
     = Inr \<lparr>duration = 3, sample_rate = 16000, channels = 1, valid = True\<rparr>"
  "fst (ModelService_transcribe example_env (example_service 0) ''/srv/uploads/temp/4f1c_converted.wav''
         (ready_state\<lparr>fs :=
            [(''/srv/uploads/temp/4f1c_input.wav'', File (Bytes [3])),
             (''/srv/uploads/temp/4f1c_converted.wav'', File (Sound (Flat 48000) 16000))]\<rparr>))
     = Inr \<lparr>res_text = ''hello'', res_language = ''auto-detected'', res_confidence = None\<rparr>"
     apply (simp add: write_node_def example_env_def ready_state_def)
    apply (simp add: convert_to_wav_def librosa_load_def librosa_resample_def sf_write_def write_node_def
      SAMPLE_RATE_def example_env_def Let_def)
   apply (simp add: validate_audio_def librosa_load_def librosa_get_duration_def MAX_AUDIO_DURATION_def)
  apply (simp add: ModelService_transcribe_def example_service_def example_env_def logger_def)
  done

lemma example_disk_full:
  "write_node example_env (open_error example_env) (fs ready_state)
      ''/srv/uploads/temp/full_input.wav'' (Bytes [3])
     = (Some ''No space left on device'', [])"
  by (simp add: write_node_def example_env_def ready_state_def)

lemma example_busy:
  "write_node example_env (open_error example_env) (fs ready_state)
      ''/srv/uploads/temp/busy_input.wav'' (Bytes [3])
     = (None, [(''/srv/uploads/temp/busy_input.wav'', File (Bytes [3]))])"
  "convert_to_wav example_env [(''/srv/uploads/temp/busy_input.wav'', File (Bytes [3]))]
      ''/srv/uploads/temp/busy_input.wav'' (Some ''/srv/uploads/temp/busy_converted.wav'')
     = (Inr ''/srv/uploads/temp/busy_converted.wav'',
        [(''/srv/uploads/temp/busy_input.wav'', File (Bytes [3])),
         (''/srv/uploads/temp/busy_converted.wav'', File (Sound (Flat 48000) 16000))])"
  "validate_audio example_env
        [(''/srv/uploads/temp/busy_input.wav'', File (Bytes [3])),
         (''/srv/uploads/temp/busy_converted.wav'', File (Sound (Flat 48000) 16000))]
        ''/srv/uploads/temp/busy_converted.wav''
     = Inr \<lparr>duration = 3, sample_rate = 16000, channels = 1, valid = True\<rparr>"
  "fst (ModelService_transcribe example_env (example_service 0) ''/srv/uploads/temp/busy_converted.wav''
         (ready_state\<lparr>fs :=
            [(''/srv/uploads/temp/busy_input.wav'', File (Bytes [3])),
             (''/srv/uploads/temp/busy_converted.wav'', File (Sound (Flat 48000) 16000))]\<rparr>))
     = Inr \<lparr>res_text = ''hello'', res_language = ''auto-detected'', res_confidence = None\<rparr>"
     apply (simp add: write_node_def example_env_def ready_state_def)
    apply (simp add: convert_to_wav_def librosa_load_def librosa_resample_def sf_write_def write_node_def
      SAMPLE_RATE_def example_env_def Let_def)
   apply (simp add: validate_audio_def librosa_load_def librosa_get_duration_def MAX_AUDIO_DURATION_def)
  apply (simp add: ModelService_transcribe_def example_service_def example_env_def logger_def)
  done

lemma example_busy_body:
  "fst (except_clauses (try_body example_env (example_service 0)
          \<lparr>filename = ''talk.wav'', data = [3]\<rparr>
          ''/srv/uploads/temp/busy_input.wav'' ''/srv/uploads/temp/busy_converted.wav'' ready_state))
     = Inr \<lparr> success = True, resp_text = ''hello'', resp_language = ''auto-detected'',
              audio_duration = 3, original_filename = ''talk.wav'' \<rparr>"
  "fs (snd (except_clauses (try_body example_env (example_service 0)
          \<lparr>filename = ''talk.wav'', data = [3]\<rparr>
          ''/srv/uploads/temp/busy_input.wav'' ''/srv/uploads/temp/busy_converted.wav'' ready_state)))
     = [(''/srv/uploads/temp/busy_input.wav'', File (Bytes [3])),
        (''/srv/uploads/temp/busy_converted.wav'', File (Sound (Flat 48000) 16000))]"
proof -
  have w: "write_node example_env (open_error example_env) (fs ready_state)
      ''/srv/uploads/temp/busy_input.wav'' (Bytes (data \<lparr>filename = ''talk.wav'', data = [3]\<rparr>))
     = (None, [(''/srv/uploads/temp/busy_input.wav'', File (Bytes [3]))])"
    using example_busy(1) by simp
  note v = try_body_validated [OF w example_busy(2) example_busy(3), of "example_service 0"]
  from v(1) example_busy(4) show "fst (except_clauses (try_body example_env (example_service 0)
          \<lparr>filename = ''talk.wav'', data = [3]\<rparr>
          ''/srv/uploads/temp/busy_input.wav'' ''/srv/uploads/temp/busy_converted.wav'' ready_state))
     = Inr \<lparr> success = True, resp_text = ''hello'', resp_language = ''auto-detected'',
              audio_duration = 3, original_filename = ''talk.wav'' \<rparr>"
    by (simp add: except_clauses_result)
  from v(2) show "fs (snd (except_clauses (try_body example_env (example_service 0)
          \<lparr>filename = ''talk.wav'', data = [3]\<rparr>
          ''/srv/uploads/temp/busy_input.wav'' ''/srv/uploads/temp/busy_converted.wav'' ready_state)))
     = [(''/srv/uploads/temp/busy_input.wav'', File (Bytes [3])),
        (''/srv/uploads/temp/busy_converted.wav'', File (Sound (Flat 48000) 16000))]"
    by (simp add: except_clauses_fs)
qed

lemma example_busy_remove:
  "os_remove example_env
     [(''/srv/uploads/temp/busy_input.wav'', File (Bytes [3])),
      (''/srv/uploads/temp/busy_converted.wav'', File (Sound (Flat 48000) 16000))]
     ''/srv/uploads/temp/busy_input.wav'' = Inl (OtherError ''Permission denied'')"
  by (simp add: os_remove_def example_env_def)

section \<open>Requests before the model is loaded\<close>

text \<open>
  Claim C5. While the global \<^verbatim>\<open>model_service\<close> of \<^verbatim>\<open>app.py\<close> is
  \<^verbatim>\<open>None\<close>, each of \<^verbatim>\<open>/health\<close>, \<^verbatim>\<open>/model-info\<close> and
  \<^verbatim>\<open>/transcribe\<close> answers status 503 with the detail \<open>Model not initialized\<close>, and
  the request does nothing else: the state of the process is the one it found.
\<close>

theorem not_initialized_503:
  assumes "model_service s = None"
  shows "health_check e s = Inl (HTTPException 503 ''Model not initialized'')
       \<and> model_info e s = Inl (HTTPException 503 ''Model not initialized'')
       \<and> transcribe_audio e file_id audio s = (Inl (HTTPException 503 ''Model not initialized''), s)"
  using assms by (simp add: health_check_def model_info_def transcribe_audio_def)

theorem not_initialized_503_witness:
  "model_service fresh_state = None
   \<and> health_check example_env fresh_state = Inl (HTTPException 503 ''Model not initialized'')
   \<and> model_info example_env fresh_state = Inl (HTTPException 503 ''Model not initialized'')
   \<and> transcribe_audio example_env ''4f1c'' \<lparr>filename = ''talk.wav'', data = [3]\<rparr> fresh_state
       = (Inl (HTTPException 503 ''Model not initialized''), fresh_state)"
proof -
  have h: "model_service fresh_state = None" by (simp add: fresh_state_def)
  from not_initialized_503 [OF h] h show ?thesis by simp
qed

section \<open>One model service per process\<close>

text \<open>
  Claim C4, for calls that follow one another. In any sequence of calls of
  \<^verbatim>\<open>get_model_service\<close>, once a call has returned an instance, every later call
  returns that same instance (the same object identity) and leaves the state of the
  process as that call left it: nothing more is constructed. The claim as stated also
  covers overlapping calls, for which it fails (see the run of two threads below).
\<close>

theorem sequential_singleton:
  assumes "i \<le> j" and "j < n" and "fst (call_seq e n s ! i) = Inr ms"
  shows "call_seq e n s ! j = call_seq e n s ! i"
  using assms
proof (induction n arbitrary: s i j)
  case 0
  then show ?case by simp
next
  case (Suc n)
  obtain r s' where r: "get_model_service e s = (r, s')" by (cases "get_model_service e s")
  show ?case
  proof (cases i)
    case 0
    with Suc.prems r have "r = Inr ms" by (simp add: Let_def)
    with r have inst: "model_service_instance s' = Some ms"
      by (simp add: get_model_service_installs)
    show ?thesis
    proof (cases j)
      case 0
      with \<open>i = 0\<close> show ?thesis by simp
    next
      case (Suc j')
      with Suc.prems have "j' < n" by simp
      with \<open>i = 0\<close> Suc r \<open>r = Inr ms\<close> inst show ?thesis
        by (simp add: Let_def call_seq_reuses)
    qed
  next
    case (Suc i')
    with Suc.prems obtain j' where j: "j = Suc j'" "i' \<le> j'" "j' < n"
      by (cases j) auto
    from Suc.prems \<open>i = Suc i'\<close> r have "fst (call_seq e n s' ! i') = Inr ms"
      by (simp add: Let_def)
    from Suc.IH [OF j(2) j(3) this] show ?thesis
      using \<open>i = Suc i'\<close> j(1) r by (simp add: Let_def)
  qed
qed

theorem sequential_singleton_witness:
  "(0::nat) \<le> 2 \<and> (2::nat) < 3
   \<and> fst (call_seq example_env 3 fresh_state ! 0) = Inr (example_service 0)
   \<and> call_seq example_env 3 fresh_state ! 2 = call_seq example_env 3 fresh_state ! 0
   \<and> constructed (snd (call_seq example_env 3 fresh_state ! 2)) = 1"
proof -
  have first: "fst (get_model_service example_env fresh_state) = Inr (example_service 0)"
    by (simp add: example_env_def fresh_state_def example_service_def get_model_service_def
        ModelService_init_def load_model_def logger_def)
  have c: "constructed (snd (get_model_service example_env fresh_state)) = 1"
    by (simp add: example_env_def fresh_state_def example_service_def get_model_service_def
        ModelService_init_def load_model_def logger_def)
  have h: "fst (call_seq example_env 3 fresh_state ! 0) = Inr (example_service 0)"
    using first by (simp add: numeral_3_eq_3 Let_def)
  have z: "call_seq example_env 3 fresh_state ! 0 = get_model_service example_env fresh_state"
    by (simp add: numeral_3_eq_3 Let_def)
  from sequential_singleton [of 0 2 3 example_env fresh_state, OF _ _ h] h z c
  show ?thesis by simp
qed

text \<open>
  Two threads call \<^verbatim>\<open>get_model_service\<close> at the same time. Both test the global
  (line 161) before either assigns it (line 162): each constructs a
  \<^verbatim>\<open>ModelService\<close> of its own and the two calls return different objects.
\<close>

theorem concurrent_singleton_counterexample:
  "fst (run_schedule example_env [0, 1, 0, 0, 1, 1] ([AtTest, AtTest], fresh_state))
     = [Returned (Some (example_service 0)), Returned (Some (example_service 1))]
   \<and> example_service 0 \<noteq> example_service 1
   \<and> constructed (snd (run_schedule example_env [0, 1, 0, 0, 1, 1] ([AtTest, AtTest], fresh_state))) = 2"
  by (simp add: thread_step_def example_env_def fresh_state_def example_service_def
      ModelService_init_def load_model_def logger_def)

section \<open>The status of the model\<close>

text \<open>
  Claim C9. \<^verbatim>\<open>get_model_info\<close> has no failing branch (it is a total function
  into the dictionary); its status is \<open>loaded\<close> exactly when the model is present and
  \<open>not loaded\<close> exactly when it is absent; and every instance that a call of
  \<^verbatim>\<open>get_model_service\<close> returns, in any sequence of calls from the start of the
  process, has status \<open>loaded\<close>.
\<close>

theorem model_info_status:
  "(status (get_model_info e self) = ''loaded'') = (model self \<noteq> None)
   \<and> (status (get_model_info e self) = ''not loaded'') = (model self = None)
   \<and> (model_service_instance s = None \<longrightarrow> (Inr ms, s') \<in> set (call_seq e n s)
        \<longrightarrow> status (get_model_info e ms) = ''loaded'')"
proof -
  have "model ms \<noteq> None"
    if "model_service_instance s = None" "(Inr ms, s') \<in> set (call_seq e n s)"
    using call_seq_loaded [of s ms s' e n] that by simp
  then show ?thesis by (auto simp: get_model_info_def)
qed

theorem model_info_status_witness:
  "model_service_instance fresh_state = None
   \<and> (Inr (example_service 0), snd (get_model_service example_env fresh_state))
        \<in> set (call_seq example_env 2 fresh_state)
   \<and> status (get_model_info example_env (example_service 0)) = ''loaded''
   \<and> model (example_service 0) \<noteq> None"
proof -
  have first: "fst (get_model_service example_env fresh_state) = Inr (example_service 0)"
    by (simp add: example_env_def fresh_state_def example_service_def get_model_service_def
        ModelService_init_def load_model_def logger_def)
  have m: "(Inr (example_service 0), snd (get_model_service example_env fresh_state))
        \<in> set (call_seq example_env 2 fresh_state)"
    using first by (cases "get_model_service example_env fresh_state") (simp add: numeral_2_eq_2 Let_def)
  have l: "model (example_service 0) \<noteq> None" by (simp add: example_service_def)
  have f: "model_service_instance fresh_state = None" by (simp add: fresh_state_def)
  from model_info_status [of example_env "example_service 0" fresh_state "example_service 0"
      "snd (get_model_service example_env fresh_state)" 2] m f l
  show ?thesis by simp
qed

section \<open>The allow-list of extensions\<close>

text \<open>
  Claim C6, for a loaded model. When the lower-cased suffix of the declared file name
  is not in \<open>ALLOWED_FORMATS\<close>, \<^verbatim>\<open>/transcribe\<close> answers status 400 and the
  state of the process is the one it found: no file is written, nothing is logged, and
  neither conversion, validation nor inference runs.
\<close>

theorem unsupported_extension_400:
  assumes "model_service s = Some ms"
    and "lower (path_suffix (filename audio)) \<notin> set ALLOWED_FORMATS"
  shows "transcribe_audio e file_id audio s =
           (Inl (HTTPException 400
              ''Unsupported file format. Allowed formats: .wav, .webm, .mp3, .flac, .m4a, .ogg''), s)"
  using assms by (simp add: transcribe_audio_def) (simp add: ALLOWED_FORMATS_def)

theorem unsupported_extension_400_witness:
  "model_service ready_state = Some (example_service 0)
   \<and> lower (path_suffix (filename \<lparr>filename = ''notes.txt'', data = [3]\<rparr>)) \<notin> set ALLOWED_FORMATS
   \<and> transcribe_audio example_env ''4f1c'' \<lparr>filename = ''notes.txt'', data = [3]\<rparr> ready_state =
           (Inl (HTTPException 400
              ''Unsupported file format. Allowed formats: .wav, .webm, .mp3, .flac, .m4a, .ogg''),
            ready_state)"
proof -
  have a: "model_service ready_state = Some (example_service 0)" by (simp add: ready_state_def)
  have b: "lower (path_suffix (filename \<lparr>filename = ''notes.txt'', data = [3]\<rparr>)) \<notin> set ALLOWED_FORMATS"
    by (simp add: suffix_notes_txt ALLOWED_FORMATS_def)
  from unsupported_extension_400 [OF a b] a b show ?thesis by simp
qed

text \<open>
  Before the model is loaded the same upload is answered with status 503, not 400: the
  test of \<^verbatim>\<open>model_service\<close> (line 105) comes before the test of the extension.
\<close>

theorem unsupported_extension_counterexample:
  "lower (path_suffix (filename \<lparr>filename = ''notes.txt'', data = [3]\<rparr>)) \<notin> set ALLOWED_FORMATS
   \<and> fst (transcribe_audio example_env ''4f1c'' \<lparr>filename = ''notes.txt'', data = [3]\<rparr> fresh_state)
       = Inl (HTTPException 503 ''Model not initialized'')"
  by (simp add: suffix_notes_txt ALLOWED_FORMATS_def transcribe_audio_def fresh_state_def)

section \<open>The duration limit\<close>

text \<open>
  Claim C3. Let \<^verbatim>\<open>validate_audio\<close> decode a file and measure its duration \<open>d\<close>.
  If \<open>d\<close> exceeds 1440 seconds, it raises a \<^verbatim>\<open>ValueError\<close> whose message
  carries the measured duration, as \<^verbatim>\<open>.1f\<close> prints it, and the maximum 1440; if
  \<open>d\<close> is at most 1440 it returns the metadata, with that duration, which is not
  negative.
\<close>

theorem validate_audio_duration:
  assumes "librosa_load e fsys p None False = Inr (y, sr)"
    and "librosa_get_duration y sr = Inr d"
  shows "(1440 < d \<longrightarrow>
            validate_audio e fsys p =
              Inl (ValueError (''Audio validation failed: Audio duration ('' @ format_float e 1 d
                     @ ''s) exceeds maximum allowed duration (1440s)'')))
       \<and> (d \<le> 1440 \<longrightarrow>
            (\<exists>info. validate_audio e fsys p = Inr info \<and> duration info = d \<and> 0 \<le> duration info))"
proof -
  from assms(2) have "0 \<le> d"
    by (auto simp: librosa_get_duration_def split: if_splits)
  with assms show ?thesis
    by (simp add: validate_audio_def MAX_AUDIO_DURATION_def show_nat_1440)
qed

theorem validate_audio_duration_witness:
  "librosa_load example_env example_fs ''/srv/uploads/temp/long.wav'' None False
       = Inr (Flat 24000000, 16000)
   \<and> librosa_get_duration (Flat 24000000) 16000 = Inr 1500
   \<and> validate_audio example_env example_fs ''/srv/uploads/temp/long.wav'' =
        Inl (ValueError ''Audio validation failed: Audio duration (1500.0s) exceeds maximum allowed duration (1440s)'')
   \<and> librosa_load example_env example_fs ''/srv/uploads/temp/short.wav'' None False
       = Inr (Flat 48000, 16000)
   \<and> librosa_get_duration (Flat 48000) 16000 = Inr 3
   \<and> (\<exists>info. validate_audio example_env example_fs ''/srv/uploads/temp/short.wav'' = Inr info
         \<and> duration info = 3 \<and> 0 \<le> duration info)"
proof -
  have l1: "librosa_load example_env example_fs ''/srv/uploads/temp/long.wav'' None False
       = Inr (Flat 24000000, 16000)"
    by (simp add: librosa_load_def example_fs_def)
  have d1: "librosa_get_duration (Flat 24000000) 16000 = Inr 1500"
    by (simp add: librosa_get_duration_def)
  have l2: "librosa_load example_env example_fs ''/srv/uploads/temp/short.wav'' None False
       = Inr (Flat 48000, 16000)"
    by (simp add: librosa_load_def example_fs_def)
  have d2: "librosa_get_duration (Flat 48000) 16000 = Inr 3"
    by (simp add: librosa_get_duration_def)
  from validate_audio_duration [OF l1 d1] validate_audio_duration [OF l2 d2] l1 d1 l2 d2
    format_1500
  show ?thesis by simp
qed

section \<open>The converted file\<close>

text \<open>
  Claim C7. Whenever \<^verbatim>\<open>convert_to_wav\<close> returns a path, the file at that path
  holds one channel at 16000 Hz, and with no output path given the path is the input
  path up to its last dot followed by \<open>_converted.wav\<close>. It does return for every
  input that decodes to a positive number of samples at a positive rate, when the
  output path can be written.
\<close>

theorem convert_to_wav_mono_16k:
  "(convert_to_wav e fsys input_path output_path = (Inr p, fsys') \<longrightarrow>
       (\<exists>n. map_of fsys' p = Some (File (Sound (Flat n) 16000)))
       \<and> (output_path = None \<longrightarrow> p = rsplit_dot_head input_path @ ''_converted.wav''))
   \<and> (map_of fsys input_path = Some (File c) \<longrightarrow> decode e c = Inr (y, sr) \<longrightarrow>
        0 < sr \<longrightarrow> 0 < n_samples y \<longrightarrow>
        out = (case output_path of
                 None \<Rightarrow> rsplit_dot_head input_path @ ''_converted.wav''
               | Some q \<Rightarrow> q) \<longrightarrow>
        sf_write_error e out = None \<longrightarrow> map_of fsys out \<noteq> Some Dir \<longrightarrow>
        (\<exists>fsys''. convert_to_wav e fsys input_path output_path = (Inr out, fsys'')))"
proof -
  have produced: "\<exists>fsys''. convert_to_wav e fsys input_path output_path = (Inr out, fsys'')"
    if f: "map_of fsys input_path = Some (File c)" and d: "decode e c = Inr (y, sr)"
      and sr: "0 < sr" and n: "0 < n_samples y"
      and out: "out = (case output_path of
                 None \<Rightarrow> rsplit_dot_head input_path @ ''_converted.wav''
               | Some q \<Rightarrow> q)"
      and w: "sf_write_error e out = None" and nd: "map_of fsys out \<noteq> Some Dir"
  proof -
    have m: "n_samples (to_mono y) = n_samples y" by (cases y) simp_all
    have "0 < (n_samples y * SAMPLE_RATE + sr - 1) div sr"
    proof -
      from n have "sr \<le> n_samples y * SAMPLE_RATE + sr - 1"
        by (simp add: SAMPLE_RATE_def) 
      with sr show ?thesis by (simp add: div_greater_zero_iff)
    qed
    with sr m have "\<exists>z. librosa_resample (to_mono y) sr SAMPLE_RATE = Inr z"
      by (simp add: librosa_resample_def Let_def)
    then obtain z where "librosa_resample (to_mono y) sr SAMPLE_RATE = Inr z" ..
    with f d have "librosa_load e fsys input_path (Some SAMPLE_RATE) True = Inr (z, SAMPLE_RATE)"
      by (simp add: librosa_load_def)
    with out w nd show ?thesis
      by (auto simp: convert_to_wav_def sf_write_def write_node_def Let_def
          split: option.splits node.splits)
  qed
  from convert_to_wav_result [of e fsys input_path output_path p fsys'] produced
  show ?thesis by (auto simp: SAMPLE_RATE_def)
qed

theorem convert_to_wav_mono_16k_witness:
  "map_of example_fs ''/srv/uploads/temp/clip.mp3'' = Some (File (Bytes [3]))
   \<and> decode example_env (Bytes [3]) = Inr (Multi 2 144000, 48000)
   \<and> (0::nat) < 48000 \<and> 0 < n_samples (Multi 2 144000)
   \<and> rsplit_dot_head ''/srv/uploads/temp/clip.mp3'' @ ''_converted.wav''
        = ''/srv/uploads/temp/clip_converted.wav''
   \<and> sf_write_error example_env ''/srv/uploads/temp/clip_converted.wav'' = None
   \<and> map_of example_fs ''/srv/uploads/temp/clip_converted.wav'' \<noteq> Some Dir
   \<and> fst (convert_to_wav example_env example_fs ''/srv/uploads/temp/clip.mp3'' None)
        = Inr ''/srv/uploads/temp/clip_converted.wav''
   \<and> (\<exists>n. map_of (snd (convert_to_wav example_env example_fs ''/srv/uploads/temp/clip.mp3'' None))
              ''/srv/uploads/temp/clip_converted.wav'' = Some (File (Sound (Flat n) 16000)))"
proof -
  let ?inp = "''/srv/uploads/temp/clip.mp3''" and ?out = "''/srv/uploads/temp/clip_converted.wav''"
  let ?run = "convert_to_wav example_env example_fs ?inp None"
  have f: "map_of example_fs ?inp = Some (File (Bytes [3]))"
    by (simp add: example_fs_def)
  have d: "decode example_env (Bytes [3]) = Inr (Multi 2 144000, 48000)"
    by (simp add: example_env_def)
  have o: "rsplit_dot_head ?inp @ ''_converted.wav'' = ?out"
    by (simp add: rsplit_dot_head_def rfind_def)
  have w: "sf_write_error example_env ?out = None"
    by (simp add: example_env_def)
  have nd: "map_of example_fs ?out \<noteq> Some Dir"
    by (simp add: example_fs_def)
  note inst = convert_to_wav_mono_16k [of example_env example_fs ?inp None ?out "snd ?run"
      "Bytes [3]" "Multi 2 144000" 48000 ?out]
  from inst f d o w nd have "\<exists>fsys''. ?run = (Inr ?out, fsys'')" by simp
  then have r: "?run = (Inr ?out, snd ?run)" and r1: "fst ?run = Inr ?out" by auto
  from r inst have "\<exists>n. map_of (snd ?run) ?out = Some (File (Sound (Flat n) 16000))" by blast
  with f d o w nd r1 show ?thesis by simp
qed

section \<open>Failures and their status\<close>

text \<open>
  Claim C2. For a request that reaches the pipeline (the model is loaded and the
  extension is allowed), the response follows from the first stage that fails: a failure
  of \<^verbatim>\<open>convert_to_wav\<close> gives status 400 with the detail
  \<open>Audio conversion failed:\<close> and the stage's message, a failure of
  \<^verbatim>\<open>validate_audio\<close> gives status 400 with the stage's message, a failure of the
  model gives status 500, and so does a failure to store the upload; if no stage fails
  the response is the transcript. No response has another form.
\<close>

theorem failure_status_mapping:
  assumes "model_service s = Some ms"
    and "lower (path_suffix (filename audio)) \<in> set ALLOWED_FORMATS"
    and "inp = input_path_of e file_id (lower (path_suffix (filename audio)))"
    and "wav = wav_path_of e file_id"
    and "write_node e (open_error e) (fs s) inp (Bytes (data audio)) = (werr, fs1)"
    and "convert_to_wav e fs1 inp (Some wav) = (conv, fs2)"
    and "resp = fst (transcribe_audio e file_id audio s)"
  shows "(werr = Some m \<longrightarrow> resp = Inl (HTTPException 500 (''Transcription failed: '' @ m)))
       \<and> (werr = None \<longrightarrow> conv = Inl x \<longrightarrow>
            resp = Inl (HTTPException 400 (''Audio conversion failed: '' @ str_exn x)))
       \<and> (werr = None \<longrightarrow> conv = Inr p \<longrightarrow> validate_audio e fs2 wav = Inl x \<longrightarrow>
            resp = Inl (HTTPException 400 (str_exn x)))
       \<and> (werr = None \<longrightarrow> conv = Inr p \<longrightarrow> validate_audio e fs2 wav = Inr info \<longrightarrow>
            fst (ModelService_transcribe e ms wav (s\<lparr>fs := fs2\<rparr>)) = Inl x \<longrightarrow>
            resp = Inl (HTTPException 500 (''Transcription failed: '' @ str_exn x)))
       \<and> (werr = None \<longrightarrow> conv = Inr p \<longrightarrow> validate_audio e fs2 wav = Inr info \<longrightarrow>
            fst (ModelService_transcribe e ms wav (s\<lparr>fs := fs2\<rparr>)) = Inr r \<longrightarrow>
            resp = Inr \<lparr> success = True, resp_text = res_text r, resp_language = res_language r,
                         audio_duration = duration info, original_filename = filename audio \<rparr>)
       \<and> ((\<exists>ok. resp = Inr ok) \<or> (\<exists>d. resp = Inl (HTTPException 400 d))
            \<or> (\<exists>d. resp = Inl (HTTPException 500 d)))"
proof -
  let ?body = "try_body e ms audio inp wav s"
  have resp: "resp = fst (except_clauses ?body)"
    using assms(7) transcribe_audio_pipeline [OF assms(1-4)] by simp
  have a: "resp = Inl (HTTPException 500 (''Transcription failed: '' @ m))" if "werr = Some m" for m
    using that assms(5) resp by (simp add: except_clauses_result try_body_open_failed)
  have b: "resp = Inl (HTTPException 400 (''Audio conversion failed: '' @ str_exn x))"
    if "werr = None" "conv = Inl x" for x
  proof -
    from that assms(6) obtain m where "x = ValueError m" by (auto dest: convert_to_wav_raises)
    with that assms(5,6) resp show ?thesis
      by (simp add: except_clauses_result try_body_convert_failed)
  qed
  have c: "resp = Inl (HTTPException 400 (str_exn x))"
    if "werr = None" "conv = Inr p" "validate_audio e fs2 wav = Inl x" for x p
  proof -
    from that obtain m where "x = ValueError m" by (auto dest: validate_audio_raises)
    with that assms(5,6) resp show ?thesis
      by (simp add: except_clauses_result try_body_validate_failed)
  qed
  have d: "resp = Inl (HTTPException 500 (''Transcription failed: '' @ str_exn x))"
    if "werr = None" "conv = Inr p" "validate_audio e fs2 wav = Inr info"
      "fst (ModelService_transcribe e ms wav (s\<lparr>fs := fs2\<rparr>)) = Inl x" for x p info
  proof -
    from that obtain m where "x = RuntimeError m" by (auto dest: transcribe_raises)
    with that assms(5,6) resp show ?thesis
      by (simp add: except_clauses_result try_body_validated)
  qed
  have f: "resp = Inr \<lparr> success = True, resp_text = res_text r, resp_language = res_language r,
                         audio_duration = duration info, original_filename = filename audio \<rparr>"
    if "werr = None" "conv = Inr p" "validate_audio e fs2 wav = Inr info"
      "fst (ModelService_transcribe e ms wav (s\<lparr>fs := fs2\<rparr>)) = Inr r" for r p info
    using that assms(5,6) resp by (simp add: except_clauses_result try_body_validated)
  have g: "(\<exists>ok. resp = Inr ok) \<or> (\<exists>d. resp = Inl (HTTPException 400 d))
            \<or> (\<exists>d. resp = Inl (HTTPException 500 d))"
  proof (cases werr)
    case (Some m)
    with a show ?thesis by blast
  next
    case None
    show ?thesis
    proof (cases conv)
      case (Inl x)
      with None b show ?thesis by blast
    next
      case (Inr p)
      show ?thesis
      proof (cases "validate_audio e fs2 wav")
        case (Inl x)
        with None Inr c show ?thesis by blast
      next
        case v: (Inr info)
        show ?thesis
        proof (cases "fst (ModelService_transcribe e ms wav (s\<lparr>fs := fs2\<rparr>))")
          case (Inl x)
          with None Inr v d show ?thesis by blast
        next
          case t: (Inr r)
          with None Inr v f show ?thesis by blast
        qed
      qed
    qed
  qed
  from a b c d f g show ?thesis by blast
qed
theorem failure_status_mapping_witness:
  "model_service ready_state = Some (example_service 0)
   \<and> lower (path_suffix ''talk.wav'') \<in> set ALLOWED_FORMATS
   \<and> fst (convert_to_wav example_env [(''/srv/uploads/temp/4f1c_input.wav'', File (Bytes []))]
          ''/srv/uploads/temp/4f1c_input.wav'' (Some ''/srv/uploads/temp/4f1c_converted.wav''))
        = Inl (ValueError ''Failed to convert audio file: no audio data'')
   \<and> fst (transcribe_audio example_env ''4f1c'' \<lparr>filename = ''talk.wav'', data = []\<rparr> ready_state)
        = Inl (HTTPException 400
            ''Audio conversion failed: Failed to convert audio file: no audio data'')
   \<and> validate_audio example_env
        [(''/srv/uploads/temp/4f1c_input.wav'', File (Bytes [1500])),
         (''/srv/uploads/temp/4f1c_converted.wav'', File (Sound (Flat 24000000) 16000))]
        ''/srv/uploads/temp/4f1c_converted.wav''
        = Inl (ValueError ''Audio validation failed: Audio duration (1500.0s) exceeds maximum allowed duration (1440s)'')
   \<and> fst (transcribe_audio example_env ''4f1c'' \<lparr>filename = ''talk.wav'', data = [1500]\<rparr> ready_state)
        = Inl (HTTPException 400
            ''Audio validation failed: Audio duration (1500.0s) exceeds maximum allowed duration (1440s)'')
   \<and> fst (ModelService_transcribe example_env (example_service 0) ''/srv/uploads/temp/4f1c_converted.wav''
         (ready_state\<lparr>fs :=
            [(''/srv/uploads/temp/4f1c_input.wav'', File (Bytes [2])),
             (''/srv/uploads/temp/4f1c_converted.wav'', File (Sound (Flat 32000) 16000))]\<rparr>))
        = Inl (RuntimeError ''Transcription failed: device failure'')
   \<and> fst (transcribe_audio example_env ''4f1c'' \<lparr>filename = ''talk.wav'', data = [2]\<rparr> ready_state)
        = Inl (HTTPException 500 ''Transcription failed: Transcription failed: device failure'')
   \<and> fst (write_node example_env (open_error example_env) (fs ready_state)
          ''/srv/uploads/temp/full_input.wav'' (Bytes [3])) = Some ''No space left on device''
   \<and> fst (transcribe_audio example_env ''full'' \<lparr>filename = ''talk.wav'', data = [3]\<rparr> ready_state)
        = Inl (HTTPException 500 ''Transcription failed: No space left on device'')
   \<and> fst (transcribe_audio example_env ''4f1c'' \<lparr>filename = ''talk.wav'', data = [3]\<rparr> ready_state)
        = Inr \<lparr> success = True, resp_text = ''hello'', resp_language = ''auto-detected'',
                 audio_duration = 3, original_filename = ''talk.wav'' \<rparr>"
proof -
  have p: "''/srv/uploads/temp/4f1c_input.wav''
      = input_path_of example_env ''4f1c'' (lower (path_suffix (filename \<lparr>filename = ''talk.wav'', data = d\<rparr>)))"
    "''/srv/uploads/temp/full_input.wav''
      = input_path_of example_env ''full'' (lower (path_suffix (filename \<lparr>filename = ''talk.wav'', data = d\<rparr>)))"
    "''/srv/uploads/temp/4f1c_converted.wav'' = wav_path_of example_env ''4f1c''"
    "''/srv/uploads/temp/full_converted.wav'' = wav_path_of example_env ''full''" for d
    by (simp_all add: example_paths)
  obtain c f where cf: "convert_to_wav example_env [] ''/srv/uploads/temp/full_input.wav''
      (Some ''/srv/uploads/temp/full_converted.wav'') = (c, f)"
    by (cases "convert_to_wav example_env [] ''/srv/uploads/temp/full_input.wav''
      (Some ''/srv/uploads/temp/full_converted.wav'')")
  have a: "fst (transcribe_audio example_env ''4f1c'' \<lparr>filename = ''talk.wav'', data = []\<rparr> ready_state)
        = Inl (HTTPException 400
            ''Audio conversion failed: Failed to convert audio file: no audio data'')"
    using failure_status_mapping [OF example_ready p(1) p(3) _ example_empty(2) refl,
        where x = "ValueError ''Failed to convert audio file: no audio data''"]
      example_empty(1) by simp
  have b: "fst (transcribe_audio example_env ''4f1c'' \<lparr>filename = ''talk.wav'', data = [1500]\<rparr> ready_state)
        = Inl (HTTPException 400
            ''Audio validation failed: Audio duration (1500.0s) exceeds maximum allowed duration (1440s)'')"
    using failure_status_mapping [OF example_ready p(1) p(3) _ example_long(2) refl,
        where x = "ValueError ''Audio validation failed: Audio duration (1500.0s) exceeds maximum allowed duration (1440s)''"]
      example_long(1,3) by simp
  have c: "fst (transcribe_audio example_env ''4f1c'' \<lparr>filename = ''talk.wav'', data = [2]\<rparr> ready_state)
        = Inl (HTTPException 500 ''Transcription failed: Transcription failed: device failure'')"
    using failure_status_mapping [OF example_ready p(1) p(3) _ example_two_seconds(2) refl,
        where x = "RuntimeError ''Transcription failed: device failure''"]
      example_two_seconds(1,3,4) by simp
  have d: "fst (transcribe_audio example_env ''full'' \<lparr>filename = ''talk.wav'', data = [3]\<rparr> ready_state)
        = Inl (HTTPException 500 ''Transcription failed: No space left on device'')"
    using failure_status_mapping [OF example_ready p(2) p(4) _ cf refl] example_disk_full
    by simp
  have e: "fst (transcribe_audio example_env ''4f1c'' \<lparr>filename = ''talk.wav'', data = [3]\<rparr> ready_state)
        = Inr \<lparr> success = True, resp_text = ''hello'', resp_language = ''auto-detected'',
                 audio_duration = 3, original_filename = ''talk.wav'' \<rparr>"
    using failure_status_mapping [OF example_ready p(1) p(3) _ example_three_seconds(2) refl]
      example_three_seconds(1,3,4) by simp
  from a b c d e example_ready(1) example_ready(2) [of "[]"] example_empty(2) example_long(3)
    example_two_seconds(4) example_disk_full
  show ?thesis by simp
qed

section \<open>The temporary files\<close>




text \<open>
  Claim C10. Both removals stand in one \<^verbatim>\<open>try\<close>: when the input file exists and
  its removal raises, the block logs the warning and does nothing else, so the files are
  those the stages left (the converted file, if it was there, stays), and the response is
  the one the same request gets when no removal is refused.
\<close>

theorem cleanup_stops_at_first_failure:
  assumes "model_service s = Some ms"
    and "lower (path_suffix (filename audio)) \<in> set ALLOWED_FORMATS"
    and "inp = input_path_of e file_id (lower (path_suffix (filename audio)))"
    and "wav = wav_path_of e file_id"
    and "body = except_clauses (try_body e ms audio inp wav s)"
    and "os_path_exists (fs (snd body)) inp"
    and "os_remove e (fs (snd body)) inp = Inl x"
  shows "transcribe_audio e file_id audio s
           = (fst body, logger WARNING (''Failed to cleanup temp files: '' @ str_exn x) (snd body))
       \<and> fs (snd (transcribe_audio e file_id audio s)) = fs (snd body)
       \<and> (os_path_exists (fs (snd body)) wav \<longrightarrow>
            os_path_exists (fs (snd (transcribe_audio e file_id audio s))) wav)
       \<and> fst (transcribe_audio e file_id audio s)
           = fst (transcribe_audio (e\<lparr>remove_error := (\<lambda>p. None)\<rparr>) file_id audio s)"
proof -
  from transcribe_audio_pipeline [OF assms(1-4)] assms(5) finally_block_first_fails [OF assms(6,7)]
  have run: "transcribe_audio e file_id audio s
           = (fst body, logger WARNING (''Failed to cleanup temp files: '' @ str_exn x) (snd body))"
    by simp
  then have "fs (snd (transcribe_audio e file_id audio s)) = fs (snd body)"
    by (simp add: logger_def)
  with run show ?thesis by (simp add: response_remove_error)
qed

theorem cleanup_stops_at_first_failure_witness:
  "model_service ready_state = Some (example_service 0)
   \<and> lower (path_suffix ''talk.wav'') \<in> set ALLOWED_FORMATS
   \<and> os_path_exists
        (fs (snd (except_clauses (try_body example_env (example_service 0)
          \<lparr>filename = ''talk.wav'', data = [3]\<rparr>
          ''/srv/uploads/temp/busy_input.wav'' ''/srv/uploads/temp/busy_converted.wav'' ready_state))))
        ''/srv/uploads/temp/busy_input.wav''
   \<and> os_remove example_env
        (fs (snd (except_clauses (try_body example_env (example_service 0)
          \<lparr>filename = ''talk.wav'', data = [3]\<rparr>
          ''/srv/uploads/temp/busy_input.wav'' ''/srv/uploads/temp/busy_converted.wav'' ready_state))))
        ''/srv/uploads/temp/busy_input.wav'' = Inl (OtherError ''Permission denied'')
   \<and> os_path_exists
        (fs (snd (except_clauses (try_body example_env (example_service 0)
          \<lparr>filename = ''talk.wav'', data = [3]\<rparr>
          ''/srv/uploads/temp/busy_input.wav'' ''/srv/uploads/temp/busy_converted.wav'' ready_state))))
        ''/srv/uploads/temp/busy_converted.wav''
   \<and> os_path_exists
        (fs (snd (transcribe_audio example_env ''busy'' \<lparr>filename = ''talk.wav'', data = [3]\<rparr>
                    ready_state)))
        ''/srv/uploads/temp/busy_converted.wav''
   \<and> fst (transcribe_audio example_env ''busy'' \<lparr>filename = ''talk.wav'', data = [3]\<rparr> ready_state)
       = fst (transcribe_audio (example_env\<lparr>remove_error := (\<lambda>p. None)\<rparr>) ''busy''
                \<lparr>filename = ''talk.wav'', data = [3]\<rparr> ready_state)"
proof -
  have p: "''/srv/uploads/temp/busy_input.wav''
      = input_path_of example_env ''busy''
          (lower (path_suffix (filename \<lparr>filename = ''talk.wav'', data = [3]\<rparr>)))"
    "''/srv/uploads/temp/busy_converted.wav'' = wav_path_of example_env ''busy''"
    by (simp_all add: example_paths)
  let ?body = "except_clauses (try_body example_env (example_service 0)
          \<lparr>filename = ''talk.wav'', data = [3]\<rparr>
          ''/srv/uploads/temp/busy_input.wav'' ''/srv/uploads/temp/busy_converted.wav'' ready_state)"
  have x: "os_path_exists (fs (snd ?body)) ''/srv/uploads/temp/busy_input.wav''"
    by (simp add: example_busy_body os_path_exists_def)
  have y: "os_remove example_env (fs (snd ?body)) ''/srv/uploads/temp/busy_input.wav''
      = Inl (OtherError ''Permission denied'')"
    by (simp add: example_busy_body example_busy_remove)
  have z: "os_path_exists (fs (snd ?body)) ''/srv/uploads/temp/busy_converted.wav''"
    by (simp add: example_busy_body os_path_exists_def)
  have e: "lower (path_suffix ''talk.wav'') \<in> set ALLOWED_FORMATS"
    using example_ready(2) [of "[]"] by simp
  note run = cleanup_stops_at_first_failure [OF example_ready p refl x y]
  from run z have a: "os_path_exists
        (fs (snd (transcribe_audio example_env ''busy'' \<lparr>filename = ''talk.wav'', data = [3]\<rparr>
                    ready_state)))
        ''/srv/uploads/temp/busy_converted.wav''"
    by blast
  from run have b: "fst (transcribe_audio example_env ''busy'' \<lparr>filename = ''talk.wav'', data = [3]\<rparr> ready_state)
       = fst (transcribe_audio (example_env\<lparr>remove_error := (\<lambda>p. None)\<rparr>) ''busy''
                \<lparr>filename = ''talk.wav'', data = [3]\<rparr> ready_state)"
    by blast
  from example_ready(1) e x y z a b show ?thesis by (intro conjI)
qed

section \<open>The cleanup endpoint\<close>

text \<open>
  Claim C8 does not hold of \<^verbatim>\<open>cleanup_temp_files\<close>: \<open>files_deleted\<close> is the
  number of entries that \<^verbatim>\<open>os.listdir\<close> returned, directories included, and not
  the number of files removed. With three files and one directory in the temporary
  directory, the three files are removed and the answer is 4.
\<close>

theorem cleanup_counts_entries_not_deletions:
  "cleanup_temp_files example_env (ready_state\<lparr>fs := example_fs\<rparr>)
     = (Inr \<lparr>cleanup_success = True, files_deleted = 4\<rparr>,
        ready_state\<lparr>fs := [(''/srv/uploads/temp/archive'', Dir)]\<rparr>)
   \<and> length example_fs - length [(''/srv/uploads/temp/archive'', Dir)] = 3"
  by (simp add: cleanup_temp_files_def os_listdir_def is_child_def os_path_isfile_def os_remove_def
      os_path_join_def TEMP_DIR_def UPLOAD_DIR_def example_env_def example_fs_def ready_state_def)

end
